theory Spec2Isabelle
  imports Complex_Main
begin

section \<open>Data model of the dashboard script (src/Website/script.js)\<close>

text \<open>
  The script keeps its state in variables of one closure: \<open>historicalData\<close>,
  \<open>activeAlerts\<close>, \<open>unreadAlertCount\<close>, \<open>lastAlertTimes\<close> and \<open>analyticsChart\<close>.
  The functions below pass that state explicitly. What a function reads from the browser
  (the clock, the geocoder's answer, the text of a DOM node, the selected filter) is
  an input, collected in the record \<open>env\<close>.

  A reading that arrives in the JSON payload is copied into the sample without any check,
  so it need not be a number. A value used as a number is modelled as \<open>real option\<close>:
  \<open>Some x\<close> is the number \<open>x\<close>, \<open>None\<close> is a value whose numeric conversion is NaN
  (an absent field, a non-numeric string, NaN itself). Every JavaScript comparison with
  NaN is false and arithmetic with NaN gives NaN. Finite IEEE doubles are idealised as
  reals.
\<close>

type_synonym num = "real option"

definition js_gt :: "num \<Rightarrow> real \<Rightarrow> bool" where
  "js_gt a b = (case a of None \<Rightarrow> False | Some x \<Rightarrow> x > b)"

definition js_lt :: "num \<Rightarrow> real \<Rightarrow> bool" where
  "js_lt a b = (case a of None \<Rightarrow> False | Some x \<Rightarrow> x < b)"

definition js_sub :: "num \<Rightarrow> num \<Rightarrow> num" where
  "js_sub a b = (case a of None \<Rightarrow> None
                 | Some x \<Rightarrow> (case b of None \<Rightarrow> None | Some y \<Rightarrow> Some (x - y)))"

text \<open>
  \<open>Math.round x\<close> is \<open>\<lfloor>x + 1/2\<rfloor>\<close>. \<open>x.toFixed(0)\<close> rounds the absolute value half up
  and restores the sign; the result is kept as the integer that the digits denote.
\<close>

definition Math_round :: "real \<Rightarrow> int" where
  "Math_round x = \<lfloor>x + 1 / 2\<rfloor>"

definition toFixed0 :: "real \<Rightarrow> int" where
  "toFixed0 x = (if x < 0 then - \<lfloor>- x + 1 / 2\<rfloor> else \<lfloor>x + 1 / 2\<rfloor>)"

text \<open>
  \<open>formattedData\<close>, the object built by \<open>fetchData\<close> and stored in \<open>historicalData\<close>.
  The field \<open>timestamp\<close> holds the time value (milliseconds since the epoch) that
  \<open>new Date(d.timestamp)\<close> yields for the payload's string, \<open>None\<close> for an invalid date.
\<close>

record sample =
  temperature :: num
  humidity :: num
  carbon :: num
  latitude :: num
  longitude :: num
  locationName :: string
  timestamp :: "int option"

text \<open>\<open>liveData\<close>, the JSON object fetched from the database; \<open>p_location = None\<close> is an absent field.\<close>

record payload =
  p_temperature :: num
  p_humidity :: num
  p_carbon :: num
  p_location :: "string option"
  p_timestamp :: "int option"

text \<open>
  The outcome of the \<open>fetch\<close>: a response that is not ok (or a network failure) throws
  inside the \<open>try\<close> block; otherwise the body is JSON, possibly \<open>null\<close>.
\<close>

datatype response = NetworkError | Json "payload option"

record thresholds =
  th_temp :: real
  th_co2 :: real
  th_humidity :: real

definition THRESHOLDS :: thresholds where
  "THRESHOLDS = \<lparr>th_temp = 45, th_co2 = 500, th_humidity = 80\<rparr>"

record cooldowns =
  last_temp :: int
  last_co2 :: int
  last_humidity :: int

definition ALERT_COOLDOWN :: int where
  "ALERT_COOLDOWN = 300000"

text \<open>
  An entry of \<open>activeAlerts\<close>. \<open>a_value\<close> with \<open>a_unit\<close> stands for the template string
  (the reading followed by a unit; the degree sign of the temperature unit is left out).
  \<open>a_timestamp\<close> is the clock value read by \<open>sendAlert\<close>, in the same synchronous turn
  as \<open>Date.now()\<close> in \<open>checkThresholds\<close>: both reads are modelled as one instant, and
  the locale formatting is left out.
\<close>

datatype alert_type = Error | Warning

record alert =
  a_metric :: string
  a_value :: num
  a_unit :: string
  a_type :: alert_type
  a_location :: string
  a_timestamp :: int

text \<open>
  What \<open>updateStatusPanel\<close> writes into the status panel: the headline (with its
  colour class and icon, which the same branch fixes) and the suggestion line.
\<close>

datatype status_text =
    HighCO2             \<comment> \<open>'High CO2 Levels Detected!'\<close>
  | HighTemperature     \<comment> \<open>'High Temperature Alert!'\<close>
  | HighHumidity        \<comment> \<open>'High Humidity Detected.'\<close>
  | AllNormal           \<comment> \<open>'All Systems Normal.'\<close>

datatype suggestion =
    EnsureVentilation   \<comment> \<open>'Suggestion: Ensure proper ventilation. ...'\<close>
  | CheckFireHazards    \<comment> \<open>'Suggestion: Check for potential fire hazards ...'\<close>
  | MonitorMold         \<comment> \<open>'Suggestion: Monitor for conditions that could lead to mold growth ...'\<close>
  | TrendingUp int      \<comment> \<open>'Observation: CO2 levels are trending upwards (increased by N ppm recently).'\<close>
  | TrendingDown        \<comment> \<open>'Observation: CO2 levels are trending downwards. Air quality is improving.'\<close>
  | Stable              \<comment> \<open>'Environmental conditions are stable.'\<close>

datatype time_filter = H24 | D7 | AllTime

datatype data_key = KeyTemperature | KeyHumidity | KeyCarbon

text \<open>The two arrays handed to the chart: \<open>labels\<close> and the dataset's \<open>data\<close>.\<close>

record chart =
  labels :: "int option list"
  dataPoints :: "num list"

record state =
  historicalData :: "sample list"
  activeAlerts :: "alert list"
  unreadAlertCount :: int
  lastAlertTimes :: cooldowns
  statusPanel :: "(status_text \<times> suggestion) option"
  analyticsChart :: "chart option"

text \<open>
  What one run of a handler reads from its surroundings: \<open>now\<close> is the clock (one
  value for all the reads of one run), \<open>address\<close> the string returned by
  \<open>getAddressFromCoords\<close> (which never throws),
  \<open>sensorLocationName\<close> the text of the DOM node of that id, \<open>analyticsVisible\<close> whether
  the analytics tab is shown, \<open>timeFilter\<close> and \<open>dataKey\<close> the two selects of the chart,
  \<open>toNumber\<close> the conversion \<open>Number\<close> applied to a piece of the location string, and
  \<open>markerAccepts lat lng\<close> whether the map library's \<open>mainMarker.setLatLng([lat, lng])\<close>
  returns instead of raising (Leaflet raises on a NaN coordinate).
\<close>

record env =
  now :: int
  address :: string
  sensorLocationName :: string
  analyticsVisible :: bool
  timeFilter :: time_filter
  dataKey :: data_key
  toNumber :: "string \<Rightarrow> num"
  markerAccepts :: "num \<Rightarrow> num \<Rightarrow> bool"

definition init_state :: state where
  "init_state =
     \<lparr>historicalData = [], activeAlerts = [], unreadAlertCount = 0,
      lastAlertTimes = \<lparr>last_temp = 0, last_co2 = 0, last_humidity = 0\<rparr>,
      statusPanel = None, analyticsChart = None\<rparr>"

section \<open>Status panel\<close>

text \<open>
  \<open>updateStatusPanel(data)\<close> reads the global \<open>historicalData\<close>, here the first argument.
  With a NaN trend both comparisons are false and the last branch is taken.
\<close>

definition updateStatusPanel :: "sample list \<Rightarrow> sample \<Rightarrow> status_text \<times> suggestion" where
  "updateStatusPanel hist d =
     (if js_gt (carbon d) (th_co2 THRESHOLDS) then (HighCO2, EnsureVentilation)
      else if js_gt (temperature d) (th_temp THRESHOLDS) then (HighTemperature, CheckFireHazards)
      else if js_gt (humidity d) (th_humidity THRESHOLDS) then (HighHumidity, MonitorMold)
      else (AllNormal,
        if length hist > 5 then
          (let oldCarbon = carbon (hist ! 0);
               trend = js_sub (carbon d) oldCarbon
           in if js_gt trend 50 then TrendingUp (toFixed0 (the trend))
              else if js_lt trend (- 50) then TrendingDown
              else Stable)
        else Stable))"

section \<open>Alerting\<close>

text \<open>
  \<open>sendAlert(metric, value, type)\<close>: the location is the text of the DOM node up to the
  first \<open>*\<close>; the record is put at the front of \<open>activeAlerts\<close> and the unread counter
  is incremented. The toast and the console output are not part of the state.
\<close>

definition sendAlert :: "env \<Rightarrow> string \<Rightarrow> num \<Rightarrow> string \<Rightarrow> alert_type \<Rightarrow> state \<Rightarrow> state" where
  "sendAlert e metric v unit ty s =
     (let location = takeWhile (\<lambda>c. c \<noteq> CHR ''*'') (sensorLocationName e)
      in s\<lparr>activeAlerts :=
              \<lparr>a_metric = metric, a_value = v, a_unit = unit, a_type = ty,
               a_location = location, a_timestamp = now e\<rparr> # activeAlerts s,
           unreadAlertCount := unreadAlertCount s + 1\<rparr>)"

text \<open>
  \<open>checkThresholds(data)\<close>: three independent \<open>if\<close> statements, run one after the other
  on the state; each is written as a function of its own here.
\<close>

definition check_temp :: "env \<Rightarrow> sample \<Rightarrow> state \<Rightarrow> state" where
  "check_temp e d s =
     (if js_gt (temperature d) (th_temp THRESHOLDS) \<and>
         now e - last_temp (lastAlertTimes s) > ALERT_COOLDOWN
      then (let s' = sendAlert e ''Temperature'' (temperature d) ''C'' Error s
            in s'\<lparr>lastAlertTimes := (lastAlertTimes s')\<lparr>last_temp := now e\<rparr>\<rparr>)
      else s)"

definition check_co2 :: "env \<Rightarrow> sample \<Rightarrow> state \<Rightarrow> state" where
  "check_co2 e d s =
     (if js_gt (carbon d) (th_co2 THRESHOLDS) \<and>
         now e - last_co2 (lastAlertTimes s) > ALERT_COOLDOWN
      then (let s' = sendAlert e ''CO2 Level'' (carbon d) '' ppm'' Error s
            in s'\<lparr>lastAlertTimes := (lastAlertTimes s')\<lparr>last_co2 := now e\<rparr>\<rparr>)
      else s)"

definition check_humidity :: "env \<Rightarrow> sample \<Rightarrow> state \<Rightarrow> state" where
  "check_humidity e d s =
     (if js_gt (humidity d) (th_humidity THRESHOLDS) \<and>
         now e - last_humidity (lastAlertTimes s) > ALERT_COOLDOWN
      then (let s' = sendAlert e ''Humidity'' (humidity d) ''%'' Warning s
            in s'\<lparr>lastAlertTimes := (lastAlertTimes s')\<lparr>last_humidity := now e\<rparr>\<rparr>)
      else s)"

definition checkThresholds :: "env \<Rightarrow> sample \<Rightarrow> state \<Rightarrow> state" where
  "checkThresholds e d s = check_humidity e d (check_co2 e d (check_temp e d s))"

text \<open>The click handlers of the alert bell and of the button that clears the alerts.\<close>

definition alertBellClick :: "state \<Rightarrow> state" where
  "alertBellClick s = s\<lparr>unreadAlertCount := 0\<rparr>"

definition clearAllAlertsClick :: "state \<Rightarrow> state" where
  "clearAllAlertsClick s = s\<lparr>activeAlerts := [], unreadAlertCount := 0\<rparr>"

section \<open>Analytics chart\<close>

text \<open>
  \<open>new Date(d.timestamp) > bound\<close> compares time values; an invalid date compares false.
\<close>

definition newer_than :: "int \<Rightarrow> sample \<Rightarrow> bool" where
  "newer_than bound d = (case timestamp d of None \<Rightarrow> False | Some t \<Rightarrow> t > bound)"

definition select_key :: "data_key \<Rightarrow> sample \<Rightarrow> num" where
  "select_key k d =
     (case k of KeyTemperature \<Rightarrow> temperature d | KeyHumidity \<Rightarrow> humidity d | KeyCarbon \<Rightarrow> carbon d)"

definition filteredData :: "int \<Rightarrow> time_filter \<Rightarrow> sample list \<Rightarrow> sample list" where
  "filteredData t f hist =
     (case f of
        H24 \<Rightarrow> filter (newer_than (t - 24 * 60 * 60 * 1000)) hist
      | D7 \<Rightarrow> filter (newer_than (t - 7 * 24 * 60 * 60 * 1000)) hist
      | AllTime \<Rightarrow> hist)"

definition renderAnalyticsChart :: "env \<Rightarrow> state \<Rightarrow> state" where
  "renderAnalyticsChart e s =
     (if length (historicalData s) = 0 then s
      else (let fd = filteredData (now e) (timeFilter e) (historicalData s)
            in s\<lparr>analyticsChart :=
                   Some \<lparr>labels = map timestamp fd, dataPoints = map (select_key (dataKey e)) fd\<rparr>\<rparr>))"

section \<open>The ingestion cycle\<close>

text \<open>\<open>"a,b".split(',')\<close>: the pieces between commas; the empty string gives one empty piece.\<close>

fun split_comma :: "string \<Rightarrow> string list" where
  "split_comma [] = [[]]"
| "split_comma (c # cs) =
     (if c = CHR '','' then [] # split_comma cs
      else (case split_comma cs of [] \<Rightarrow> [[c]] | w # ws \<Rightarrow> (c # w) # ws))"

text \<open>
  \<open>updateDashboard(data)\<close>: the gauges, the clock label and the activity card are pure
  rendering. \<open>mainMarker.setLatLng\<close> may raise; then the rest of the function does not run
  (result \<open>None\<close>). Otherwise the status panel is rewritten from the history as it is now.
\<close>

definition updateDashboard :: "env \<Rightarrow> sample \<Rightarrow> state \<Rightarrow> state option" where
  "updateDashboard e d s =
     (if markerAccepts e (latitude d) (longitude d)
      then Some (s\<lparr>statusPanel := Some (updateStatusPanel (historicalData s) d)\<rparr>)
      else None)"

text \<open>The object literal \<open>formattedData\<close> of \<open>fetchData\<close>, for a payload with location \<open>loc\<close>.\<close>

definition formattedData :: "env \<Rightarrow> payload \<Rightarrow> string \<Rightarrow> sample" where
  "formattedData e p loc =
     (let parts = map (toNumber e) (split_comma loc);
          lat = (if 0 < length parts then parts ! 0 else None);
          lng = (if 1 < length parts then parts ! 1 else None)
      in \<lparr>temperature = p_temperature p, humidity = p_humidity p, carbon = p_carbon p,
          latitude = lat, longitude = lng,
          locationName = address e, timestamp = p_timestamp p\<rparr>)"

text \<open>\<open>historicalData.push(d)\<close> followed by one \<open>shift()\<close> when the length exceeds 20.\<close>

definition push_limited :: "sample \<Rightarrow> sample list \<Rightarrow> sample list" where
  "push_limited d hist =
     (let h = hist @ [d] in if length h > 20 then tl h else h)"

text \<open>
  \<open>fetchData\<close>: everything runs inside \<open>try\<close>; an exception ends the cycle with the
  variables as they were. The guard \<open>liveData && liveData.location\<close> fails for a
  \<open>null\<close> body, an absent location and the empty string. The heat layers redrawn at the
  end are rendering only.
\<close>

definition fetchData :: "env \<Rightarrow> response \<Rightarrow> state \<Rightarrow> state" where
  "fetchData e r s =
     (case r of
        NetworkError \<Rightarrow> s
      | Json None \<Rightarrow> s
      | Json (Some liveData) \<Rightarrow>
          (case p_location liveData of
             None \<Rightarrow> s
           | Some loc \<Rightarrow>
               if loc = [] then s
               else (let d = formattedData e liveData loc
                     in case updateDashboard e d s of
                          None \<Rightarrow> s
                        | Some s1 \<Rightarrow>
                            (let s2 = checkThresholds e d s1;
                                 s3 = s2\<lparr>historicalData := push_limited d (historicalData s2)\<rparr>
                             in if analyticsVisible e then renderAnalyticsChart e s3 else s3))))"

text \<open>The events that change the state, and runs of the page from its initial state.\<close>

datatype event =
    Tick env response     \<comment> \<open>one timer-driven call of \<open>fetchData\<close>\<close>
  | BellClick             \<comment> \<open>the alert modal is opened\<close>
  | ClearAllClick         \<comment> \<open>the alert log is cleared\<close>
  | ChartChange env       \<comment> \<open>a chart select changes or the analytics tab is opened\<close>

fun step :: "state \<Rightarrow> event \<Rightarrow> state" where
  "step s (Tick e r) = fetchData e r s"
| "step s BellClick = alertBellClick s"
| "step s ClearAllClick = clearAllAlertsClick s"
| "step s (ChartChange e) = renderAnalyticsChart e s"

definition run :: "state \<Rightarrow> event list \<Rightarrow> state" where
  "run s evs = foldl step s evs"

section \<open>Colour helper functions\<close>

text \<open>
  \<open>n.toString(16)\<close> for an integer, \<open>s.padStart(2, '0')\<close>, \<open>s.substring(i, j)\<close> for
  \<open>i \<le> j\<close>, and \<open>parseInt(s, 16)\<close> for a string that starts with neither white space,
  a sign nor the prefix \<open>0x\<close>, as the pieces of the six colour constants do: the value of
  the longest prefix of hexadecimal digits, \<open>None\<close> for NaN when there is none.
\<close>

definition hexDigit :: "nat \<Rightarrow> char" where
  "hexDigit n = ''0123456789abcdef'' ! n"

fun toString16_nat :: "nat \<Rightarrow> string" where
  "toString16_nat n =
     (if n < 16 then [hexDigit n] else toString16_nat (n div 16) @ [hexDigit (n mod 16)])"

declare toString16_nat.simps [simp del]

definition toString16 :: "int \<Rightarrow> string" where
  "toString16 i =
     (if i < 0 then CHR ''-'' # toString16_nat (nat (- i)) else toString16_nat (nat i))"

definition padStart2 :: "string \<Rightarrow> string" where
  "padStart2 s = replicate (2 - length s) CHR ''0'' @ s"

definition hexValue :: "char \<Rightarrow> nat option" where
  "hexValue c =
     (let n = (of_char c :: nat)
      in if 48 \<le> n \<and> n \<le> 57 then Some (n - 48)
         else if 97 \<le> n \<and> n \<le> 102 then Some (n - 87)
         else if 65 \<le> n \<and> n \<le> 70 then Some (n - 55)
         else None)"

fun parseHex :: "nat option \<Rightarrow> string \<Rightarrow> nat option" where
  "parseHex acc [] = acc"
| "parseHex acc (c # cs) =
     (case hexValue c of
        None \<Rightarrow> acc
      | Some v \<Rightarrow> parseHex (Some (16 * (case acc of None \<Rightarrow> 0 | Some a \<Rightarrow> a) + v)) cs)"

definition parseInt16 :: "string \<Rightarrow> nat option" where
  "parseInt16 s = parseHex None s"

definition substring :: "nat \<Rightarrow> nat \<Rightarrow> string \<Rightarrow> string" where
  "substring i j s = take (j - i) (drop i s)"

text \<open>
  One channel of \<open>interpolateColor\<close>: \<open>Math.round(c1 + factor * (c2 - c1))\<close>, NaN when a
  channel did not parse. \<open>channelString\<close> is \<open>c.toString(16).padStart(2, '0')\<close>.
\<close>

definition mixChannel :: "nat option \<Rightarrow> nat option \<Rightarrow> real \<Rightarrow> int option" where
  "mixChannel c1 c2 factor =
     (case c1 of None \<Rightarrow> None
      | Some a \<Rightarrow> (case c2 of None \<Rightarrow> None
          | Some b \<Rightarrow> Some (Math_round (real a + factor * (real b - real a)))))"

definition channelString :: "int option \<Rightarrow> string" where
  "channelString c = (case c of None \<Rightarrow> ''NaN'' | Some n \<Rightarrow> padStart2 (toString16 n))"

text \<open>The values \<open>r\<close>, \<open>g\<close>, \<open>b\<close> computed by \<open>interpolateColor\<close>, and the string it returns.\<close>

definition interpolateChannels :: "string \<Rightarrow> string \<Rightarrow> real \<Rightarrow> int option \<times> int option \<times> int option" where
  "interpolateChannels color1 color2 factor =
     (let r1 = parseInt16 (substring 1 3 color1);
          g1 = parseInt16 (substring 3 5 color1);
          b1 = parseInt16 (substring 5 7 color1);
          r2 = parseInt16 (substring 1 3 color2);
          g2 = parseInt16 (substring 3 5 color2);
          b2 = parseInt16 (substring 5 7 color2)
      in (mixChannel r1 r2 factor, mixChannel g1 g2 factor, mixChannel b1 b2 factor))"

definition interpolateColor :: "string \<Rightarrow> string \<Rightarrow> real \<Rightarrow> string" where
  "interpolateColor color1 color2 factor =
     (case interpolateChannels color1 color2 factor of
        (r, g, b) \<Rightarrow> CHR ''#'' # channelString r @ channelString g @ channelString b)"

definition blue :: string where "blue = ''#3b82f6''"
definition green :: string where "green = ''#22c55e''"
definition yellow :: string where "yellow = ''#eab308''"
definition lightRed :: string where "lightRed = ''#f87171''"
definition midRed :: string where "midRed = ''#ef4444''"
definition darkRed :: string where "darkRed = ''#b91c1c''"

text \<open>
  \<open>getTemperatureColor(value)\<close> returns \<open>interpolateColor(c1, c2, factor)\<close> in each of its
  five branches; \<open>temperatureBand\<close> gives the three arguments of that call.
\<close>

definition temperatureBand :: "real \<Rightarrow> string \<times> string \<times> real" where
  "temperatureBand v =
     (if v \<le> 25 then (blue, green, v / 25)
      else if v \<le> 40 then (green, yellow, (v - 25) / 15)
      else if v \<le> 50 then (yellow, lightRed, (v - 40) / 10)
      else if v \<le> 70 then (lightRed, midRed, (v - 50) / 20)
      else (midRed, darkRed, (v - 70) / 30))"

definition getTemperatureColor :: "real \<Rightarrow> string" where
  "getTemperatureColor v =
     (case temperatureBand v of (c1, c2, factor) \<Rightarrow> interpolateColor c1 c2 factor)"

text \<open>\<open>getCO2Color(value)\<close>: plain green below 350, then four interpolated bands.\<close>

definition co2Band :: "real \<Rightarrow> string \<times> string \<times> real" where
  "co2Band v =
     (if v \<le> 450 then (green, yellow, (v - 350) / 100)
      else if v \<le> 500 then (yellow, lightRed, (v - 450) / 50)
      else if v \<le> 700 then (lightRed, midRed, (v - 500) / 200)
      else (midRed, darkRed, (v - 700) / 100))"

definition getCO2Color :: "real \<Rightarrow> string" where
  "getCO2Color v =
     (if v < 350 then green
      else (case co2Band v of (c1, c2, factor) \<Rightarrow> interpolateColor c1 c2 factor))"

text \<open>A colour string of the form \<open>#rrggbb\<close>, and a channel value that fits two hex digits.\<close>

definition wellFormedColor :: "string \<Rightarrow> bool" where
  "wellFormedColor s =
     (length s = 7 \<and> take 1 s = ''#'' \<and> list_all (\<lambda>c. hexValue c \<noteq> None) (drop 1 s))"

definition channelInRange :: "int option \<Rightarrow> bool" where
  "channelInRange c = (case c of None \<Rightarrow> False | Some n \<Rightarrow> 0 \<le> n \<and> n \<le> 255)"

section \<open>Notions used to state the properties\<close>

text \<open>The last \<open>n\<close> elements of a list, in order.\<close>

definition lastn :: "nat \<Rightarrow> 'a list \<Rightarrow> 'a list" where
  "lastn n xs = drop (length xs - n) xs"

text \<open>
  \<open>validPayload e p\<close>: the payload passes the guard of \<open>fetchData\<close> and the marker update
  returns, so that the cycle reaches \<open>checkThresholds\<close> and the \<open>push\<close>. \<open>sampleOf e p\<close>
  is the object built for it.
\<close>

definition sampleOf :: "env \<Rightarrow> payload \<Rightarrow> sample" where
  "sampleOf e p = formattedData e p (case p_location p of None \<Rightarrow> [] | Some loc \<Rightarrow> loc)"

definition validPayload :: "env \<Rightarrow> payload \<Rightarrow> bool" where
  "validPayload e p =
     (case p_location p of
        None \<Rightarrow> False
      | Some loc \<Rightarrow> loc \<noteq> [] \<and> markerAccepts e (latitude (sampleOf e p)) (longitude (sampleOf e p)))"

definition tick :: "env \<times> payload \<Rightarrow> event" where
  "tick ep = Tick (fst ep) (Json (Some (snd ep)))"

text \<open>The three tests of \<open>updateStatusPanel\<close> that precede the normal branch all fail.\<close>

definition underThresholds :: "sample \<Rightarrow> bool" where
  "underThresholds d =
     (\<not> js_gt (carbon d) 500 \<and> \<not> js_gt (temperature d) 45 \<and> \<not> js_gt (humidity d) 80)"

text \<open>
  An alert log, newest first, in which every alert is more than the cooldown later than
  every older alert of the same metric.
\<close>

fun spaced :: "alert list \<Rightarrow> bool" where
  "spaced [] = True"
| "spaced (a # as) =
     (list_all (\<lambda>b. a_metric b \<noteq> a_metric a \<or> a_timestamp a - a_timestamp b > ALERT_COOLDOWN) as
      \<and> spaced as)"

text \<open>The entry of \<open>lastAlertTimes\<close> that belongs to the metric name used in an alert.\<close>

definition last_for :: "string \<Rightarrow> cooldowns \<Rightarrow> int" where
  "last_for m c =
     (if m = ''Temperature'' then last_temp c
      else if m = ''CO2 Level'' then last_co2 c
      else last_humidity c)"

definition metric_names :: "string list" where
  "metric_names = [''Temperature'', ''CO2 Level'', ''Humidity'']"

text \<open>
  The window as the specification words it: the samples whose timestamp lies in the
  closed interval from \<open>t - width\<close> to \<open>t\<close>. It is compared with \<open>filteredData\<close> below.
\<close>

definition spec_window :: "int \<Rightarrow> int \<Rightarrow> sample list \<Rightarrow> sample list" where
  "spec_window t width hist =
     filter (\<lambda>d. case timestamp d of None \<Rightarrow> False | Some ts \<Rightarrow> t - width \<le> ts \<and> ts \<le> t) hist"

definition range_ms :: "time_filter \<Rightarrow> int" where
  "range_ms f = (case f of H24 \<Rightarrow> 86400000 | D7 \<Rightarrow> 604800000 | AllTime \<Rightarrow> 0)"

text \<open>
  \<open>breach m d\<close>: the threshold test that \<open>checkThresholds\<close> applies for the metric named
  \<open>m\<close> in its alerts. \<open>alerts_of m\<close>: the alerts of that metric in a log.
  \<open>alerts_inv\<close>: the log is spaced, and no alert is later than the cooldown time recorded
  for its metric.
\<close>

definition breach :: "string \<Rightarrow> sample \<Rightarrow> bool" where
  "breach m d =
     (if m = ''Temperature'' then js_gt (temperature d) 45
      else if m = ''CO2 Level'' then js_gt (carbon d) 500
      else js_gt (humidity d) 80)"

definition alerts_of :: "string \<Rightarrow> alert list \<Rightarrow> alert list" where
  "alerts_of m alerts = filter (\<lambda>a. a_metric a = m) alerts"

definition alerts_inv :: "state \<Rightarrow> bool" where
  "alerts_inv s =
     (spaced (activeAlerts s) \<and>
      list_all (\<lambda>a. a_metric a \<in> set metric_names \<and>
                    a_timestamp a \<le> last_for (a_metric a) (lastAlertTimes s)) (activeAlerts s))"

text \<open>\<open>unread_bounded\<close>: the unread counter lies between 0 and the length of the alert log.\<close>

definition unread_bounded :: "state \<Rightarrow> bool" where
  "unread_bounded s =
     (0 \<le> unreadAlertCount s \<and> unreadAlertCount s \<le> int (length (activeAlerts s)))"

section \<open>Example inputs\<close>

text \<open>
  A browser environment at clock value \<open>t\<close>: the number conversion knows the two
  coordinates of the example location, and the marker behaves as Leaflet's (it raises
  exactly on a NaN coordinate). The sensor's payload carries its readings, the location
  string and the time value of its timestamp.
\<close>

definition exNumber :: "string \<Rightarrow> num" where
  "exNumber s =
     (if s = ''10.9085'' then Some (109085 / 10000)
      else if s = ''76.9098'' then Some (769098 / 10000)
      else None)"

definition exMarker :: "num \<Rightarrow> num \<Rightarrow> bool" where
  "exMarker lat lng = (lat \<noteq> None \<and> lng \<noteq> None)"

definition exEnv :: "int \<Rightarrow> env" where
  "exEnv t =
     \<lparr>now = t, address = ''Coimbatore'', sensorLocationName = ''Coimbatore*demo sensor'',
      analyticsVisible = True, timeFilter = H24, dataKey = KeyCarbon,
      toNumber = exNumber, markerAccepts = exMarker\<rparr>"

definition exPayload :: "num \<Rightarrow> num \<Rightarrow> num \<Rightarrow> int \<Rightarrow> payload" where
  "exPayload t h c ts =
     \<lparr>p_temperature = t, p_humidity = h, p_carbon = c,
      p_location = Some ''10.9085,76.9098'', p_timestamp = Some ts\<rparr>"

definition exSample :: "num \<Rightarrow> int option \<Rightarrow> sample" where
  "exSample c ts =
     \<lparr>temperature = Some 30, humidity = Some 50, carbon = c,
      latitude = Some (109085 / 10000), longitude = Some (769098 / 10000),
      locationName = ''Coimbatore'', timestamp = ts\<rparr>"

text \<open>
  A history of six samples with carbon readings from 300 to 390, and the state of a page
  that holds it.
\<close>

definition exHistory6 :: "sample list" where
  "exHistory6 =
     [exSample (Some 300) (Some 1000), exSample (Some 320) (Some 2000),
      exSample (Some 340) (Some 3000), exSample (Some 360) (Some 4000),
      exSample (Some 380) (Some 5000), exSample (Some 390) (Some 6000)]"

definition exState6 :: state where
  "exState6 = init_state\<lparr>historicalData := exHistory6\<rparr>"

text \<open>
  A reading of 46 degrees with the sensor's timestamp 1699999990000, fetched once at
  clock value 1700000000000; the page state after that cycle.
\<close>

definition exHotPayload :: payload where
  "exHotPayload = exPayload (Some 46) (Some 50) (Some 300) 1699999990000"

definition exHotState :: state where
  "exHotState = fetchData (exEnv 1700000000000) (Json (Some exHotPayload)) init_state"

text \<open>A payload without a location, and one whose temperature is not a number.\<close>

definition exNoLocation :: payload where
  "exNoLocation = (exPayload (Some 30) (Some 50) (Some 300) 1000)\<lparr>p_location := None\<rparr>"

definition exNonNumeric :: payload where
  "exNonNumeric = exPayload None (Some 50) (Some 300) 1000"

text \<open>A payload whose location is a string that does not hold two numbers.\<close>

definition exBadLocation :: payload where
  "exBadLocation = (exPayload (Some 30) (Some 50) (Some 300) 1000)\<lparr>p_location := Some ''abc''\<rparr>"

text \<open>
  \<open>exTicks n\<close>: \<open>n\<close> fetches, five seconds apart, of payloads numbered by their timestamps
  \<open>0, 1000, 2000, ...\<close>. \<open>exRising6\<close>: six fetches with carbon rising from 300 to 400, all
  readings under the thresholds.
\<close>

definition exTicks :: "nat \<Rightarrow> (env \<times> payload) list" where
  "exTicks n =
     map (\<lambda>i. (exEnv (1700000000000 + 5000 * int i),
                exPayload (Some 30) (Some 50) (Some 300) (1000 * int i))) [0..<n]"

definition exRising6 :: "(env \<times> payload) list" where
  "exRising6 =
     [(exEnv 1700000000000, exPayload (Some 30) (Some 50) (Some 300) 1000),
      (exEnv 1700000005000, exPayload (Some 30) (Some 50) (Some 320) 2000),
      (exEnv 1700000010000, exPayload (Some 30) (Some 50) (Some 340) 3000),
      (exEnv 1700000015000, exPayload (Some 30) (Some 50) (Some 360) 4000),
      (exEnv 1700000020000, exPayload (Some 30) (Some 50) (Some 380) 5000),
      (exEnv 1700000025000, exPayload (Some 30) (Some 50) (Some 400) 6000)]"

text \<open>
  A page whose history holds three samples around the clock value 1700000000000: one
  exactly 24 hours old, one a second old, and one stamped a minute ahead of the clock.
\<close>

definition exWindowState :: state where
  "exWindowState =
     init_state\<lparr>historicalData :=
       [exSample (Some 300) (Some 1699913600000),
        exSample (Some 310) (Some 1699999999000),
        exSample (Some 320) (Some 1700000060000)]\<rparr>"

text \<open>
  A sustained temperature breach: the reading of 46 degrees is fetched at the clock values
  1700000000000, 5 seconds later, 300 seconds later and 305 seconds later.
  \<open>exAlertEvents\<close>: two such fetches 305 seconds apart, with the alert modal opened
  between them.
\<close>

definition exBreachTicks :: "(env \<times> payload) list" where
  "exBreachTicks =
     [(exEnv 1700000000000, exHotPayload), (exEnv 1700000005000, exHotPayload),
      (exEnv 1700000300000, exHotPayload), (exEnv 1700000305000, exHotPayload)]"

definition exAlertEvents :: "event list" where
  "exAlertEvents =
     [tick (exEnv 1700000000000, exHotPayload), BellClick,
      tick (exEnv 1700000305000, exHotPayload)]"

section \<open>Classification priority\<close>

text \<open>
  C4. For every sample and every history, the headline is chosen by the first matching
  test: carbon above 500 gives the CO2 headline; otherwise temperature above 45 gives the
  temperature headline; otherwise humidity above 80 gives the humidity headline;
  otherwise the panel reads normal. A sample with carbon 600 and temperature 50 is
  classified as high CO2 and not as high temperature, whatever its other fields and
  the history.
\<close>

theorem classifier_priority:
  "fst (updateStatusPanel hist d) =
     (if js_gt (carbon d) 500 then HighCO2
      else if js_gt (temperature d) 45 then HighTemperature
      else if js_gt (humidity d) 80 then HighHumidity
      else AllNormal) \<and>
   fst (updateStatusPanel hist (d\<lparr>carbon := Some 600, temperature := Some 50\<rparr>)) = HighCO2 \<and>
   fst (updateStatusPanel hist (d\<lparr>carbon := Some 600, temperature := Some 50\<rparr>)) \<noteq> HighTemperature"
  by (simp add: updateStatusPanel_def THRESHOLDS_def js_gt_def)

theorem classifier_priority_witness:
  "fst (updateStatusPanel exHistory6 (exSample (Some 600) (Some 7000)\<lparr>temperature := Some 50\<rparr>)) = HighCO2 \<and>
   fst (updateStatusPanel exHistory6 (exSample (Some 400) (Some 7000)\<lparr>temperature := Some 50\<rparr>)) =
     HighTemperature \<and>
   fst (updateStatusPanel exHistory6 (exSample (Some 400) (Some 7000)\<lparr>humidity := Some 81\<rparr>)) =
     HighHumidity \<and>
   fst (updateStatusPanel exHistory6 (exSample (Some 400) (Some 7000))) = AllNormal"
  using classifier_priority [of exHistory6 "exSample (Some 600) (Some 7000)\<lparr>temperature := Some 50\<rparr>"]
    classifier_priority [of exHistory6 "exSample (Some 400) (Some 7000)\<lparr>temperature := Some 50\<rparr>"]
    classifier_priority [of exHistory6 "exSample (Some 400) (Some 7000)\<lparr>humidity := Some 81\<rparr>"]
    classifier_priority [of exHistory6 "exSample (Some 400) (Some 7000)"]
  by (simp add: exSample_def js_gt_def)

section \<open>What a cycle changes and what it leaves alone\<close>

lemma sendAlert_fields:
  "historicalData (sendAlert e m v u ty s) = historicalData s"
  "statusPanel (sendAlert e m v u ty s) = statusPanel s"
  "lastAlertTimes (sendAlert e m v u ty s) = lastAlertTimes s"
  "analyticsChart (sendAlert e m v u ty s) = analyticsChart s"
  by (simp_all add: sendAlert_def Let_def)

lemma check_temp_frame:
  "historicalData (check_temp e d s) = historicalData s"
  "statusPanel (check_temp e d s) = statusPanel s"
  "analyticsChart (check_temp e d s) = analyticsChart s"
  by (simp_all add: check_temp_def sendAlert_fields Let_def)

lemma check_co2_frame:
  "historicalData (check_co2 e d s) = historicalData s"
  "statusPanel (check_co2 e d s) = statusPanel s"
  "analyticsChart (check_co2 e d s) = analyticsChart s"
  by (simp_all add: check_co2_def sendAlert_fields Let_def)

lemma check_humidity_frame:
  "historicalData (check_humidity e d s) = historicalData s"
  "statusPanel (check_humidity e d s) = statusPanel s"
  "analyticsChart (check_humidity e d s) = analyticsChart s"
  by (simp_all add: check_humidity_def sendAlert_fields Let_def)

lemma checkThresholds_frame:
  "historicalData (checkThresholds e d s) = historicalData s"
  "statusPanel (checkThresholds e d s) = statusPanel s"
  "analyticsChart (checkThresholds e d s) = analyticsChart s"
  by (simp_all add: checkThresholds_def check_temp_frame check_co2_frame check_humidity_frame)

lemma sendAlert_panel_commute:
  "sendAlert e m v u ty (s\<lparr>statusPanel := x\<rparr>) = (sendAlert e m v u ty s)\<lparr>statusPanel := x\<rparr>"
  by (simp add: sendAlert_def Let_def)

lemma check_temp_panel_commute:
  "check_temp e d (s\<lparr>statusPanel := x\<rparr>) = (check_temp e d s)\<lparr>statusPanel := x\<rparr>"
  by (simp add: check_temp_def sendAlert_panel_commute sendAlert_fields Let_def)

lemma check_co2_panel_commute:
  "check_co2 e d (s\<lparr>statusPanel := x\<rparr>) = (check_co2 e d s)\<lparr>statusPanel := x\<rparr>"
  by (simp add: check_co2_def sendAlert_panel_commute sendAlert_fields Let_def)

lemma check_humidity_panel_commute:
  "check_humidity e d (s\<lparr>statusPanel := x\<rparr>) = (check_humidity e d s)\<lparr>statusPanel := x\<rparr>"
  by (simp add: check_humidity_def sendAlert_panel_commute sendAlert_fields Let_def)

lemma checkThresholds_panel_commute:
  "checkThresholds e d (s\<lparr>statusPanel := x\<rparr>) = (checkThresholds e d s)\<lparr>statusPanel := x\<rparr>"
  by (simp add: checkThresholds_def check_temp_panel_commute check_co2_panel_commute
      check_humidity_panel_commute)

lemma renderAnalyticsChart_fields:
  "historicalData (renderAnalyticsChart e s) = historicalData s"
  "activeAlerts (renderAnalyticsChart e s) = activeAlerts s"
  "unreadAlertCount (renderAnalyticsChart e s) = unreadAlertCount s"
  "lastAlertTimes (renderAnalyticsChart e s) = lastAlertTimes s"
  "statusPanel (renderAnalyticsChart e s) = statusPanel s"
  by (simp_all add: renderAnalyticsChart_def Let_def)

lemma validPayload_location:
  assumes "validPayload e p"
  obtains loc where "p_location p = Some loc" "loc \<noteq> []" "sampleOf e p = formattedData e p loc"
    "markerAccepts e (latitude (formattedData e p loc)) (longitude (formattedData e p loc))"
  using assms by (cases "p_location p") (simp_all add: validPayload_def sampleOf_def)

lemma fetchData_valid_history:
  assumes "validPayload e p"
  shows "historicalData (fetchData e (Json (Some p)) s) = push_limited (sampleOf e p) (historicalData s)"
proof -
  from assms obtain loc where "p_location p = Some loc" "loc \<noteq> []"
    "sampleOf e p = formattedData e p loc"
    "markerAccepts e (latitude (formattedData e p loc)) (longitude (formattedData e p loc))"
    by (rule validPayload_location)
  then show ?thesis
    by (simp add: fetchData_def updateDashboard_def Let_def renderAnalyticsChart_fields
        checkThresholds_frame)
qed

lemma fetchData_valid_panel:
  assumes "validPayload e p"
  shows "statusPanel (fetchData e (Json (Some p)) s) =
     Some (updateStatusPanel (historicalData s) (sampleOf e p))"
proof -
  from assms obtain loc where "p_location p = Some loc" "loc \<noteq> []"
    "sampleOf e p = formattedData e p loc"
    "markerAccepts e (latitude (formattedData e p loc)) (longitude (formattedData e p loc))"
    by (rule validPayload_location)
  then show ?thesis
    by (simp add: fetchData_def updateDashboard_def Let_def renderAnalyticsChart_fields
        checkThresholds_frame)
qed

lemma fetchData_valid_alerts:
  assumes "validPayload e p"
  shows "activeAlerts (fetchData e (Json (Some p)) s) = activeAlerts (checkThresholds e (sampleOf e p) s)"
    and "unreadAlertCount (fetchData e (Json (Some p)) s) = unreadAlertCount (checkThresholds e (sampleOf e p) s)"
    and "lastAlertTimes (fetchData e (Json (Some p)) s) = lastAlertTimes (checkThresholds e (sampleOf e p) s)"
proof -
  from assms obtain loc where *: "p_location p = Some loc" "loc \<noteq> []"
    "sampleOf e p = formattedData e p loc"
    "markerAccepts e (latitude (formattedData e p loc)) (longitude (formattedData e p loc))"
    by (rule validPayload_location)
  from * show "activeAlerts (fetchData e (Json (Some p)) s) = activeAlerts (checkThresholds e (sampleOf e p) s)"
    by (simp add: fetchData_def updateDashboard_def Let_def renderAnalyticsChart_fields
        checkThresholds_panel_commute)
  from * show "unreadAlertCount (fetchData e (Json (Some p)) s) = unreadAlertCount (checkThresholds e (sampleOf e p) s)"
    by (simp add: fetchData_def updateDashboard_def Let_def renderAnalyticsChart_fields
        checkThresholds_panel_commute)
  from * show "lastAlertTimes (fetchData e (Json (Some p)) s) = lastAlertTimes (checkThresholds e (sampleOf e p) s)"
    by (simp add: fetchData_def updateDashboard_def Let_def renderAnalyticsChart_fields
        checkThresholds_panel_commute)
qed

lemma fetchData_invalid:
  assumes "\<not> validPayload e p"
  shows "fetchData e (Json (Some p)) s = s"
proof (cases "p_location p")
  case None
  then show ?thesis by (simp add: fetchData_def)
next
  case (Some loc)
  show ?thesis
  proof (cases "loc = []")
    case True
    with Some show ?thesis by (simp add: fetchData_def)
  next
    case False
    with assms Some
    have "\<not> markerAccepts e (latitude (formattedData e p loc)) (longitude (formattedData e p loc))"
      by (simp add: validPayload_def sampleOf_def)
    with Some False show ?thesis
      by (simp add: fetchData_def updateDashboard_def Let_def)
  qed
qed

lemma exPayload_sample:
  "sampleOf (exEnv t) (exPayload a b c ts) =
     \<lparr>temperature = a, humidity = b, carbon = c,
      latitude = Some (109085 / 10000), longitude = Some (769098 / 10000),
      locationName = ''Coimbatore'', timestamp = Some ts\<rparr>"
  by (simp add: sampleOf_def formattedData_def exEnv_def exPayload_def exNumber_def Let_def)

lemma exPayload_valid: "validPayload (exEnv t) (exPayload a b c ts)"
proof -
  have "p_location (exPayload a b c ts) = Some ''10.9085,76.9098''"
    by (simp add: exPayload_def)
  moreover have "markerAccepts (exEnv t) = exMarker"
    by (simp add: exEnv_def)
  ultimately show ?thesis
    by (simp add: validPayload_def exPayload_sample exMarker_def)
qed


section \<open>Stale samples\<close>

lemma validPayload_location_only:
  "p_location p' = p_location p \<Longrightarrow> validPayload e p' = validPayload e p"
  by (cases "p_location p") (simp_all add: validPayload_def sampleOf_def formattedData_def Let_def)

text \<open>
  C1, as stated, fails: \<open>fetchData\<close> never compares timestamps. The record with timestamp
  1699999990000 is already the newest sample of \<open>exHotState\<close>; fetched again 305 seconds
  later with the same timestamp it is appended a second time, and it raises a second
  temperature alert.
\<close>

theorem stale_sample_is_ingested:
  "map timestamp (historicalData exHotState) = [Some 1699999990000] \<and>
   p_timestamp exHotPayload = Some 1699999990000 \<and>
   length (activeAlerts exHotState) = 1 \<and>
   length (historicalData (fetchData (exEnv 1700000305000) (Json (Some exHotPayload)) exHotState)) = 2 \<and>
   historicalData (fetchData (exEnv 1700000305000) (Json (Some exHotPayload)) exHotState)
     \<noteq> historicalData exHotState \<and>
   length (activeAlerts (fetchData (exEnv 1700000305000) (Json (Some exHotPayload)) exHotState)) = 2"
  by code_simp

text \<open>
  C1, amended. Ingestion makes no staleness check. For every state and every fetched payload
  that has a location (and whose marker update returns), whatever its timestamp, the sample
  is appended to the history, the oldest entry being dropped once there are more than 20;
  a history of fewer than 20 samples grows by one. The status panel is rewritten and the
  thresholds are checked for that sample in the same cycle.
\<close>

theorem ingestion_ignores_timestamp:
  assumes "validPayload e p"
  shows "historicalData (fetchData e (Json (Some (p\<lparr>p_timestamp := ts\<rparr>))) s) =
           push_limited (sampleOf e (p\<lparr>p_timestamp := ts\<rparr>)) (historicalData s) \<and>
         timestamp (sampleOf e (p\<lparr>p_timestamp := ts\<rparr>)) = ts \<and>
         (length (historicalData s) < 20 \<longrightarrow>
            length (historicalData (fetchData e (Json (Some (p\<lparr>p_timestamp := ts\<rparr>))) s)) =
              length (historicalData s) + 1) \<and>
         statusPanel (fetchData e (Json (Some (p\<lparr>p_timestamp := ts\<rparr>))) s) =
           Some (updateStatusPanel (historicalData s) (sampleOf e (p\<lparr>p_timestamp := ts\<rparr>))) \<and>
         activeAlerts (fetchData e (Json (Some (p\<lparr>p_timestamp := ts\<rparr>))) s) =
           activeAlerts (checkThresholds e (sampleOf e (p\<lparr>p_timestamp := ts\<rparr>)) s)"
proof -
  have v: "validPayload e (p\<lparr>p_timestamp := ts\<rparr>)"
    using assms validPayload_location_only [of "p\<lparr>p_timestamp := ts\<rparr>" p e] by simp
  have t: "timestamp (sampleOf e (p\<lparr>p_timestamp := ts\<rparr>)) = ts"
    by (simp add: sampleOf_def formattedData_def Let_def)
  show ?thesis
    using fetchData_valid_history [OF v, of s] fetchData_valid_panel [OF v, of s]
      fetchData_valid_alerts(1) [OF v, of s] t
    by (simp add: push_limited_def Let_def)
qed

theorem ingestion_ignores_timestamp_witness:
  "validPayload (exEnv 1700000305000) exHotPayload \<and>
   length (historicalData exHotState) < 20 \<and>
   timestamp (last (historicalData exHotState)) = Some 1699999990000 \<and>
   length (historicalData
     (fetchData (exEnv 1700000305000)
        (Json (Some (exHotPayload\<lparr>p_timestamp := Some 1699999990000\<rparr>))) exHotState)) = 2"
proof -
  have v: "validPayload (exEnv 1700000305000) exHotPayload"
    unfolding exHotPayload_def by (rule exPayload_valid)
  have h: "length (historicalData exHotState) = 1"
    "timestamp (last (historicalData exHotState)) = Some 1699999990000"
    by code_simp+
  show ?thesis
    using ingestion_ignores_timestamp [OF v, of "Some 1699999990000" exHotState] v h
    by (simp add: push_limited_def Let_def)
qed

section \<open>Malformed payloads\<close>

text \<open>
  C7, as stated, fails: the readings are never validated. A payload whose temperature is
  not a number but which has a location is ingested: the history of the initial state
  grows by that sample.
\<close>

theorem non_numeric_reading_is_ingested:
  "p_temperature exNonNumeric = None \<and>
   fetchData (exEnv 1700000000000) (Json (Some exNonNumeric)) init_state \<noteq> init_state \<and>
   map temperature
     (historicalData (fetchData (exEnv 1700000000000) (Json (Some exNonNumeric)) init_state)) = [None]"
  by code_simp

text \<open>
  C7, amended. A cycle whose fetch fails, whose body is null, whose payload has no
  location (absent or empty), or whose marker update raises (as the map library does for
  a location that does not hold two numbers) leaves the whole state as it was: history,
  cooldown times, alert log and unread counter are unchanged and no alert is raised. The
  readings are not checked: a payload with a non-empty location whose marker update
  returns is ingested whatever its three readings are.
\<close>

theorem missing_location_changes_nothing:
  "fetchData e NetworkError s = s \<and>
   fetchData e (Json None) s = s \<and>
   (p_location p = None \<or> p_location p = Some [] \<longrightarrow> fetchData e (Json (Some p)) s = s) \<and>
   (\<not> validPayload e p \<longrightarrow> fetchData e (Json (Some p)) s = s) \<and>
   (validPayload e p \<longrightarrow>
      historicalData
        (fetchData e (Json (Some (p\<lparr>p_temperature := a, p_humidity := b, p_carbon := c\<rparr>))) s) =
      push_limited (sampleOf e (p\<lparr>p_temperature := a, p_humidity := b, p_carbon := c\<rparr>))
        (historicalData s))"
proof -
  have "validPayload e p \<Longrightarrow> validPayload e (p\<lparr>p_temperature := a, p_humidity := b, p_carbon := c\<rparr>)"
    using validPayload_location_only
      [of "p\<lparr>p_temperature := a, p_humidity := b, p_carbon := c\<rparr>" p e] by simp
  then show ?thesis
    by (auto simp: fetchData_valid_history fetchData_invalid) (simp_all add: fetchData_def)
qed

theorem missing_location_changes_nothing_witness:
  "p_location exNoLocation = None \<and>
   fetchData (exEnv 1700000305000) (Json (Some exNoLocation)) exHotState = exHotState \<and>
   p_location exBadLocation = Some ''abc'' \<and>
   \<not> validPayload (exEnv 1700000305000) exBadLocation \<and>
   fetchData (exEnv 1700000305000) (Json (Some exBadLocation)) exHotState = exHotState \<and>
   validPayload (exEnv 1700000305000) exHotPayload \<and>
   length (historicalData (fetchData (exEnv 1700000305000)
      (Json (Some (exHotPayload\<lparr>p_temperature := None, p_humidity := None, p_carbon := None\<rparr>)))
      exHotState)) = 2"
proof -
  have v: "validPayload (exEnv 1700000305000) exHotPayload"
    unfolding exHotPayload_def by (rule exPayload_valid)
  have n: "p_location exNoLocation = None"
    by (simp add: exNoLocation_def)
  have h: "length (historicalData exHotState) = 1"
    by code_simp
  have b: "p_location exBadLocation = Some ''abc''"
    "\<not> validPayload (exEnv 1700000305000) exBadLocation"
    by code_simp+
  show ?thesis
    using missing_location_changes_nothing
      [of "exEnv 1700000305000" exHotState exNoLocation None None None]
      missing_location_changes_nothing
      [of "exEnv 1700000305000" exHotState exBadLocation None None None]
      missing_location_changes_nothing
      [of "exEnv 1700000305000" exHotState exHotPayload None None None] v n h b
    by (simp add: push_limited_def Let_def)
qed


section \<open>Classification runs before the append\<close>

lemma trend_up_needs_history:
  assumes "snd (updateStatusPanel hist d) = TrendingUp n"
  shows "5 < length hist \<and>
    (\<exists>c c0. carbon d = Some c \<and> carbon (hist ! 0) = Some c0 \<and> 50 < c - c0 \<and> n = toFixed0 (c - c0))"
proof -
  from assms have len: "5 < length hist"
    by (simp add: updateStatusPanel_def Let_def split: if_splits)
  from assms len have up: "js_gt (js_sub (carbon d) (carbon (hist ! 0))) 50"
    and n: "n = toFixed0 (the (js_sub (carbon d) (carbon (hist ! 0))))"
    by (simp_all add: updateStatusPanel_def Let_def split: if_splits)
  from up obtain c c0 where "carbon d = Some c" "carbon (hist ! 0) = Some c0"
    by (auto simp: js_gt_def js_sub_def split: option.splits)
  with up n len show ?thesis
    by (simp add: js_gt_def js_sub_def)
qed

lemma trend_down_needs_history:
  assumes "snd (updateStatusPanel hist d) = TrendingDown"
  shows "5 < length hist \<and>
    (\<exists>c c0. carbon d = Some c \<and> carbon (hist ! 0) = Some c0 \<and> c - c0 < - 50)"
proof -
  from assms have len: "5 < length hist"
    by (simp add: updateStatusPanel_def Let_def split: if_splits)
  from assms len have down: "js_lt (js_sub (carbon d) (carbon (hist ! 0))) (- 50)"
    by (simp add: updateStatusPanel_def Let_def split: if_splits)
  from down obtain c c0 where "carbon d = Some c" "carbon (hist ! 0) = Some c0"
    by (auto simp: js_lt_def js_sub_def split: option.splits)
  with down len show ?thesis
    by (simp add: js_lt_def js_sub_def)
qed

text \<open>
  C9. In a cycle that ingests a sample, the status panel is computed from the history as it
  was before the sample is appended, and the thresholds are checked before the append as
  well (the alert check does not read the history). A trend suggestion therefore compares
  the new carbon reading with the oldest sample buffered before the cycle, and it can only
  appear when more than 5 samples were buffered before the current one.
\<close>

theorem classification_before_append:
  assumes "validPayload e p"
  shows "statusPanel (fetchData e (Json (Some p)) s) =
           Some (updateStatusPanel (historicalData s) (sampleOf e p)) \<and>
         activeAlerts (fetchData e (Json (Some p)) s) =
           activeAlerts (checkThresholds e (sampleOf e p) s) \<and>
         historicalData (fetchData e (Json (Some p)) s) =
           push_limited (sampleOf e p) (historicalData s) \<and>
         (statusPanel (fetchData e (Json (Some p)) s) = Some (st, TrendingUp n) \<longrightarrow>
            5 < length (historicalData s) \<and>
            (\<exists>c c0. carbon (sampleOf e p) = Some c \<and> carbon (historicalData s ! 0) = Some c0 \<and>
                     50 < c - c0 \<and> n = toFixed0 (c - c0))) \<and>
         (statusPanel (fetchData e (Json (Some p)) s) = Some (st, TrendingDown) \<longrightarrow>
            5 < length (historicalData s) \<and>
            (\<exists>c c0. carbon (sampleOf e p) = Some c \<and> carbon (historicalData s ! 0) = Some c0 \<and>
                     c - c0 < - 50))"
proof -
  have panel: "statusPanel (fetchData e (Json (Some p)) s) =
      Some (updateStatusPanel (historicalData s) (sampleOf e p))"
    using assms by (rule fetchData_valid_panel)
  have up: "statusPanel (fetchData e (Json (Some p)) s) = Some (st, TrendingUp n) \<longrightarrow>
      5 < length (historicalData s) \<and>
      (\<exists>c c0. carbon (sampleOf e p) = Some c \<and> carbon (historicalData s ! 0) = Some c0 \<and>
               50 < c - c0 \<and> n = toFixed0 (c - c0))"
  proof
    assume "statusPanel (fetchData e (Json (Some p)) s) = Some (st, TrendingUp n)"
    with panel have "snd (updateStatusPanel (historicalData s) (sampleOf e p)) = TrendingUp n"
      by (metis option.inject snd_conv)
    then show "5 < length (historicalData s) \<and>
      (\<exists>c c0. carbon (sampleOf e p) = Some c \<and> carbon (historicalData s ! 0) = Some c0 \<and>
               50 < c - c0 \<and> n = toFixed0 (c - c0))"
      by (rule trend_up_needs_history)
  qed
  have down: "statusPanel (fetchData e (Json (Some p)) s) = Some (st, TrendingDown) \<longrightarrow>
      5 < length (historicalData s) \<and>
      (\<exists>c c0. carbon (sampleOf e p) = Some c \<and> carbon (historicalData s ! 0) = Some c0 \<and>
               c - c0 < - 50)"
  proof
    assume "statusPanel (fetchData e (Json (Some p)) s) = Some (st, TrendingDown)"
    with panel have "snd (updateStatusPanel (historicalData s) (sampleOf e p)) = TrendingDown"
      by (metis option.inject snd_conv)
    then show "5 < length (historicalData s) \<and>
      (\<exists>c c0. carbon (sampleOf e p) = Some c \<and> carbon (historicalData s ! 0) = Some c0 \<and>
               c - c0 < - 50)"
      by (rule trend_down_needs_history)
  qed
  from panel up down fetchData_valid_alerts(1) [OF assms, of s] fetchData_valid_history [OF assms, of s]
  show ?thesis by blast
qed

theorem classification_before_append_witness:
  "validPayload (exEnv 1700000000000) (exPayload (Some 30) (Some 50) (Some 400) 7000) \<and>
   statusPanel (fetchData (exEnv 1700000000000)
      (Json (Some (exPayload (Some 30) (Some 50) (Some 400) 7000))) exState6) =
     Some (AllNormal, TrendingUp 100) \<and>
   5 < length (historicalData exState6) \<and>
   carbon (historicalData exState6 ! 0) = Some 300 \<and>
   statusPanel (fetchData (exEnv 1700000000000)
      (Json (Some (exPayload (Some 30) (Some 50) (Some 200) 7000))) exState6) =
     Some (AllNormal, TrendingDown)"
proof -
  have v: "validPayload (exEnv 1700000000000) (exPayload (Some 30) (Some 50) c 7000)" for c
    by (rule exPayload_valid)
  have h: "historicalData exState6 = exHistory6"
    by (simp add: exState6_def)
  have u: "updateStatusPanel exHistory6
      (sampleOf (exEnv 1700000000000) (exPayload (Some 30) (Some 50) (Some 400) 7000)) =
      (AllNormal, TrendingUp 100)"
    by code_simp
  have d: "updateStatusPanel exHistory6
      (sampleOf (exEnv 1700000000000) (exPayload (Some 30) (Some 50) (Some 200) 7000)) =
      (AllNormal, TrendingDown)"
    by code_simp
  have c0: "length exHistory6 = 6" "carbon (exHistory6 ! 0) = Some 300"
    by code_simp+
  show ?thesis
    using classification_before_append [OF v, of "Some 400" exState6 AllNormal 100]
      classification_before_append [OF v, of "Some 200" exState6 AllNormal 100] v h u d c0
    by simp
qed


section \<open>The bounded history\<close>

lemma run_snoc: "run s (evs @ [ev]) = step (run s evs) ev"
  by (simp add: run_def)

lemma length_lastn: "length (lastn n xs) = min n (length xs)"
  by (simp add: lastn_def)

lemma push_limited_lastn:
  assumes "length hist \<le> 20"
  shows "push_limited d hist = lastn 20 (hist @ [d])"
proof (cases hist)
  case Nil
  then show ?thesis by (simp add: push_limited_def lastn_def Let_def)
next
  case (Cons x xs)
  with assms have "length xs \<le> 19" by simp
  with Cons show ?thesis
    by (cases "length xs = 19") (simp_all add: push_limited_def lastn_def Let_def)
qed

lemma lastn_snoc: "lastn n (lastn n xs @ [y]) = lastn n (xs @ [y])"
proof (cases "length xs \<le> n")
  case True
  then show ?thesis by (simp add: lastn_def)
next
  case False
  then have "n < length xs" by simp
  then have "drop (Suc (length xs) - n) xs = drop 1 (drop (length xs - n) xs)"
    by (simp add: Suc_diff_le)
  with \<open>n < length xs\<close> show ?thesis
    by (cases n) (simp_all add: lastn_def Suc_diff_le)
qed

lemma length_push_limited: "length hist \<le> 20 \<Longrightarrow> length (push_limited d hist) \<le> 20"
  by (simp add: push_limited_lastn length_lastn)

text \<open>After any number of ingested payloads the history holds the last 20 samples.\<close>

lemma run_valid_history:
  assumes "\<forall>ep\<in>set ticks. validPayload (fst ep) (snd ep)"
  shows "historicalData (run init_state (map tick ticks)) =
    lastn 20 (map (\<lambda>ep. sampleOf (fst ep) (snd ep)) ticks)"
  using assms
proof (induction ticks rule: rev_induct)
  case Nil
  show ?case by (simp add: run_def init_state_def lastn_def)
next
  case (snoc ep ticks)
  let ?s = "run init_state (map tick ticks)"
  let ?xs = "map (\<lambda>ep. sampleOf (fst ep) (snd ep)) ticks"
  from snoc have ih: "historicalData ?s = lastn 20 ?xs" and v: "validPayload (fst ep) (snd ep)"
    by simp_all
  have "historicalData (run init_state (map tick (ticks @ [ep]))) =
      push_limited (sampleOf (fst ep) (snd ep)) (historicalData ?s)"
    using v by (simp add: run_snoc tick_def fetchData_valid_history)
  also have "\<dots> = lastn 20 (lastn 20 ?xs @ [sampleOf (fst ep) (snd ep)])"
    by (simp add: ih push_limited_lastn length_lastn)
  also have "\<dots> = lastn 20 (?xs @ [sampleOf (fst ep) (snd ep)])"
    by (rule lastn_snoc)
  finally show ?case by simp
qed

text \<open>No event makes the history longer than 20.\<close>

lemma step_history_bound:
  assumes "length (historicalData s) \<le> 20"
  shows "length (historicalData (step s ev)) \<le> 20"
proof (cases ev)
  case (Tick e r)
  show ?thesis
  proof (cases r)
    case NetworkError
    with Tick assms show ?thesis by (simp add: fetchData_def)
  next
    case (Json body)
    show ?thesis
    proof (cases body)
      case None
      with Tick Json assms show ?thesis by (simp add: fetchData_def)
    next
      case (Some p)
      show ?thesis
      proof (cases "validPayload e p")
        case True
        with Tick Json Some assms show ?thesis
          by (simp add: fetchData_valid_history length_push_limited)
      next
        case False
        with Tick Json Some assms show ?thesis
          by (simp add: fetchData_invalid)
      qed
    qed
  qed
next
  case BellClick
  with assms show ?thesis by (simp add: alertBellClick_def)
next
  case ClearAllClick
  with assms show ?thesis by (simp add: clearAllAlertsClick_def)
next
  case (ChartChange e)
  with assms show ?thesis by (simp add: renderAnalyticsChart_fields)
qed

lemma run_history_bound: "length (historicalData (run init_state evs)) \<le> 20"
proof (induction evs rule: rev_induct)
  case Nil
  show ?case by (simp add: run_def init_state_def)
next
  case (snoc ev evs)
  then show ?case by (simp add: run_snoc step_history_bound)
qed

text \<open>
  C3. When N payloads are ingested in order from the initial state, the history afterwards
  has length min(N, 20) and consists of the last min(N, 20) samples in arrival order,
  oldest first. Between cycles, after any sequence of events whatsoever, the history is
  never longer than 20.
\<close>

theorem history_holds_last_20:
  assumes "\<forall>ep\<in>set ticks. validPayload (fst ep) (snd ep)"
  shows "historicalData (run init_state (map tick ticks)) =
           lastn (min (length ticks) 20) (map (\<lambda>ep. sampleOf (fst ep) (snd ep)) ticks) \<and>
         length (historicalData (run init_state (map tick ticks))) = min (length ticks) 20 \<and>
         length (historicalData (run init_state evs)) \<le> 20"
proof -
  have "lastn (min (length ticks) 20) (map (\<lambda>ep. sampleOf (fst ep) (snd ep)) ticks) =
      lastn 20 (map (\<lambda>ep. sampleOf (fst ep) (snd ep)) ticks)"
    by (simp add: lastn_def min_def)
  then show ?thesis
    using run_valid_history [OF assms] run_history_bound [of evs]
    by (simp add: length_lastn min.commute)
qed

theorem history_holds_last_20_witness:
  "list_all (\<lambda>ep. validPayload (fst ep) (snd ep)) (exTicks 22) \<and>
   length (historicalData (run init_state (map tick (exTicks 22)))) = 20 \<and>
   map timestamp (historicalData (run init_state (map tick (exTicks 22)))) =
     map (\<lambda>i. Some (1000 * int i)) [2..<22]"
proof -
  have v: "\<forall>ep\<in>set (exTicks 22). validPayload (fst ep) (snd ep)"
    by (auto simp: exTicks_def exPayload_valid)
  have l: "length (exTicks 22) = 22"
    by (simp add: exTicks_def)
  have m: "map timestamp (lastn 20 (map (\<lambda>ep. sampleOf (fst ep) (snd ep)) (exTicks 22))) =
      map (\<lambda>i. Some (1000 * int i)) [2..<22]"
    by code_simp
  show ?thesis
    using history_holds_last_20 [OF v, of "[]"] v l m by (simp add: length_lastn list_all_iff)
qed


section \<open>The trend suggestion\<close>

text \<open>
  C5, as stated, fails. After six fetches with carbon 300, 320, 340, 360, 380, 400, all under
  the thresholds, the panel written in the sixth cycle reads normal with the suggestion
  that conditions are stable: the panel is written before the sixth sample is appended,
  when only five samples are buffered.
\<close>

theorem sixth_sample_reports_stable:
  "map carbon (historicalData (run init_state (map tick exRising6))) =
     [Some 300, Some 320, Some 340, Some 360, Some 380, Some 400] \<and>
   statusPanel (run init_state (map tick exRising6)) = Some (AllNormal, Stable) \<and>
   statusPanel (run init_state (map tick exRising6)) \<noteq> Some (AllNormal, TrendingUp 100)"
  by code_simp

lemma normal_without_trend:
  assumes "underThresholds d" "length hist \<le> 5"
  shows "updateStatusPanel hist d = (AllNormal, Stable)"
  using assms by (simp add: updateStatusPanel_def underThresholds_def THRESHOLDS_def)

lemma normal_with_upward_trend:
  assumes "underThresholds d" "5 < length hist"
    "carbon d = Some c" "carbon (hist ! 0) = Some c0" "50 < c - c0"
  shows "updateStatusPanel hist d = (AllNormal, TrendingUp (toFixed0 (c - c0)))"
  using assms
  by (simp add: updateStatusPanel_def underThresholds_def THRESHOLDS_def js_sub_def js_gt_def)

text \<open>
  C5, amended. After six sequential samples have been ingested from the initial state, the
  sixth being under the thresholds, the panel of the sixth cycle reads normal with the
  stable suggestion. The upward-trend suggestion appears one cycle later: when the oldest
  of the six buffered samples has carbon 300 and a seventh sample under the thresholds has
  carbon 400, the panel of the seventh cycle reads normal with the upward-trend suggestion
  citing an increase of 100 ppm (the new carbon minus the oldest buffered carbon, reported
  when more than 5 samples are buffered before the cycle and the difference exceeds 50).
\<close>

theorem trend_reported_from_seventh_sample:
  assumes "length ticks = 6"
    and "\<forall>ep\<in>set ticks. validPayload (fst ep) (snd ep)"
    and "underThresholds (sampleOf (fst (last ticks)) (snd (last ticks)))"
    and "carbon (sampleOf (fst (hd ticks)) (snd (hd ticks))) = Some 300"
    and "validPayload e7 p7"
    and "underThresholds (sampleOf e7 p7)"
    and "carbon (sampleOf e7 p7) = Some 400"
  shows "statusPanel (run init_state (map tick ticks)) = Some (AllNormal, Stable) \<and>
         statusPanel (run init_state (map tick (ticks @ [(e7, p7)]))) =
           Some (AllNormal, TrendingUp 100)"
proof -
  let ?f = "\<lambda>ep. sampleOf (fst ep) (snd ep)"
  from assms(1) have ne: "ticks \<noteq> []" by auto
  then have split: "ticks = butlast ticks @ [last ticks]" by simp
  have vb: "\<forall>ep\<in>set (butlast ticks). validPayload (fst ep) (snd ep)"
    using assms(2) by (auto dest: in_set_butlastD)
  have vl: "validPayload (fst (last ticks)) (snd (last ticks))"
    using assms(2) ne by simp
  have h5: "length (historicalData (run init_state (map tick (butlast ticks)))) = 5"
    using run_valid_history [OF vb] assms(1) by (simp add: length_lastn)
  have "run init_state (map tick ticks) =
      step (run init_state (map tick (butlast ticks))) (tick (last ticks))"
    using split run_snoc [of init_state "map tick (butlast ticks)" "tick (last ticks)"]
    by (metis list.simps(8,9) map_append)
  then have six: "statusPanel (run init_state (map tick ticks)) = Some (AllNormal, Stable)"
    using vl h5 assms(3)
    by (simp add: tick_def fetchData_valid_panel normal_without_trend)
  have h6: "historicalData (run init_state (map tick ticks)) = map ?f ticks"
    using run_valid_history [OF assms(2)] assms(1) by (simp add: lastn_def)
  then have l6: "5 < length (historicalData (run init_state (map tick ticks)))"
    using assms(1) by simp
  have first: "carbon (historicalData (run init_state (map tick ticks)) ! 0) = Some 300"
    using h6 ne assms(4) by (simp add: hd_conv_nth)
  have "updateStatusPanel (historicalData (run init_state (map tick ticks))) (sampleOf e7 p7) =
      (AllNormal, TrendingUp (toFixed0 (400 - 300)))"
    using assms(6) l6 assms(7) first by (rule normal_with_upward_trend) simp
  moreover have "toFixed0 (400 - 300) = 100"
    by (simp add: toFixed0_def)
  ultimately have seven:
    "statusPanel (run init_state (map tick (ticks @ [(e7, p7)]))) = Some (AllNormal, TrendingUp 100)"
    using assms(5) by (simp add: run_snoc tick_def fetchData_valid_panel)
  from six seven show ?thesis by simp
qed

theorem trend_reported_from_seventh_sample_witness:
  "length exRising6 = 6 \<and>
   list_all (\<lambda>ep. validPayload (fst ep) (snd ep)) exRising6 \<and>
   underThresholds (sampleOf (fst (last exRising6)) (snd (last exRising6))) \<and>
   carbon (sampleOf (fst (hd exRising6)) (snd (hd exRising6))) = Some 300 \<and>
   validPayload (exEnv 1700000030000) (exPayload (Some 30) (Some 50) (Some 400) 7000) \<and>
   underThresholds (sampleOf (exEnv 1700000030000) (exPayload (Some 30) (Some 50) (Some 400) 7000)) \<and>
   carbon (sampleOf (exEnv 1700000030000) (exPayload (Some 30) (Some 50) (Some 400) 7000)) = Some 400 \<and>
   statusPanel (run init_state (map tick exRising6)) = Some (AllNormal, Stable) \<and>
   statusPanel (run init_state (map tick
      (exRising6 @ [(exEnv 1700000030000, exPayload (Some 30) (Some 50) (Some 400) 7000)]))) =
     Some (AllNormal, TrendingUp 100)"
proof -
  have a1: "length exRising6 = 6"
    by (simp add: exRising6_def)
  have a2: "\<forall>ep\<in>set exRising6. validPayload (fst ep) (snd ep)"
    by (simp add: exRising6_def exPayload_valid)
  have a3: "underThresholds (sampleOf (fst (last exRising6)) (snd (last exRising6)))"
    by (simp add: exRising6_def exPayload_sample underThresholds_def js_gt_def)
  have a4: "carbon (sampleOf (fst (hd exRising6)) (snd (hd exRising6))) = Some 300"
    by (simp add: exRising6_def exPayload_sample)
  have a5: "validPayload (exEnv 1700000030000) (exPayload (Some 30) (Some 50) (Some 400) 7000)"
    by (rule exPayload_valid)
  have a6: "underThresholds
      (sampleOf (exEnv 1700000030000) (exPayload (Some 30) (Some 50) (Some 400) 7000))"
    by (simp add: exPayload_sample underThresholds_def js_gt_def)
  have a7: "carbon (sampleOf (exEnv 1700000030000) (exPayload (Some 30) (Some 50) (Some 400) 7000))
      = Some 400"
    by (simp add: exPayload_sample)
  show ?thesis
    using trend_reported_from_seventh_sample [OF a1 a2 a3 a4 a5 a6 a7] a1 a2 a3 a4 a5 a6 a7
    by (simp add: list_all_iff)
qed


section \<open>The colour mapper\<close>

lemma hexDigit_is_hex:
  assumes "k < 16"
  shows "hexValue (hexDigit k) \<noteq> None"
proof -
  have "list_all (\<lambda>k. hexValue (hexDigit k) \<noteq> None) [0..<16]"
    by code_simp
  then have "\<forall>k\<in>set [0..<16]. hexValue (hexDigit k) \<noteq> None"
    by (simp only: list_all_iff)
  with assms show ?thesis by simp
qed

lemma two_hex_digits:
  assumes "n < 256"
  shows "padStart2 (toString16_nat n) = [hexDigit (n div 16), hexDigit (n mod 16)]"
  using assms
  by (cases "n < 16")
    (simp_all add: toString16_nat.simps [of n] toString16_nat.simps [of "n div 16"]
      padStart2_def hexDigit_def less_mult_imp_div_less)

lemma channelString_in_range:
  assumes "channelInRange c"
  shows "length (channelString c) = 2 \<and> list_all (\<lambda>x. hexValue x \<noteq> None) (channelString c)"
proof -
  from assms obtain n where c: "c = Some n" and n: "0 \<le> n" "n \<le> 255"
    by (auto simp: channelInRange_def split: option.splits)
  have small: "nat n < 256" using n by simp
  then have "padStart2 (toString16_nat (nat n)) = [hexDigit (nat n div 16), hexDigit (nat n mod 16)]"
    by (rule two_hex_digits)
  moreover have "hexValue (hexDigit (nat n div 16)) \<noteq> None"
    using small by (intro hexDigit_is_hex) (simp add: less_mult_imp_div_less)
  moreover have "hexValue (hexDigit (nat n mod 16)) \<noteq> None"
    by (intro hexDigit_is_hex) simp
  ultimately show ?thesis using c n
    by (simp add: channelString_def toString16_def)
qed

lemma interpolateColor_wellFormed:
  assumes "interpolateChannels c1 c2 f = (r, g, b)"
    and "channelInRange r" "channelInRange g" "channelInRange b"
  shows "wellFormedColor (interpolateColor c1 c2 f)"
  using assms(1) channelString_in_range [OF assms(2)] channelString_in_range [OF assms(3)]
    channelString_in_range [OF assms(4)]
  by (simp add: wellFormedColor_def interpolateColor_def)

text \<open>A factor between 0 and 1 keeps a mixed channel between the two channels it mixes.\<close>

lemma mixChannel_in_range:
  assumes "0 \<le> f" "f \<le> 1" "a \<le> 255" "b \<le> 255"
  shows "channelInRange (mixChannel (Some a) (Some b) f)"
proof -
  let ?x = "real a + f * (real b - real a)"
  have eq: "?x = (1 - f) * real a + f * real b"
    by (simp add: algebra_simps)
  have lo: "0 \<le> ?x"
    unfolding eq using assms by simp
  have "(1 - f) * real a \<le> (1 - f) * 255"
    using assms by (intro mult_left_mono) auto
  moreover have "f * real b \<le> f * 255"
    using assms by (intro mult_left_mono) auto
  ultimately have hi: "?x \<le> 255"
    unfolding eq by (simp add: algebra_simps)
  have "0 \<le> \<lfloor>?x + 1 / 2\<rfloor>"
    using lo by simp
  moreover have "\<lfloor>?x + 1 / 2\<rfloor> \<le> 255"
    using hi by (simp add: floor_le_iff)
  ultimately show ?thesis
    by (simp add: channelInRange_def mixChannel_def Math_round_def)
qed

lemmas colour_defs = blue_def green_def yellow_def lightRed_def midRed_def darkRed_def
  parseInt16_def substring_def hexValue_def

lemma temperatureBand_in_range:
  assumes "0 \<le> v" "v \<le> 100"
  shows "case temperatureBand v of (c1, c2, f) \<Rightarrow> 0 \<le> f \<and> f \<le> 1 \<and>
    (case interpolateChannels c1 c2 f of (r, g, b) \<Rightarrow>
       channelInRange r \<and> channelInRange g \<and> channelInRange b)"
  using assms
  by (auto simp: temperatureBand_def interpolateChannels_def colour_defs
      intro!: mixChannel_in_range)

lemma co2Band_in_range:
  assumes "350 \<le> v" "v \<le> 800"
  shows "case co2Band v of (c1, c2, f) \<Rightarrow> 0 \<le> f \<and> f \<le> 1 \<and>
    (case interpolateChannels c1 c2 f of (r, g, b) \<Rightarrow>
       channelInRange r \<and> channelInRange g \<and> channelInRange b)"
  using assms
  by (auto simp: co2Band_def interpolateChannels_def colour_defs
      intro!: mixChannel_in_range)

lemma getTemperatureColor_wellFormed:
  assumes "0 \<le> v" "v \<le> 100"
  shows "wellFormedColor (getTemperatureColor v)"
proof -
  obtain c1 c2 f where band: "temperatureBand v = (c1, c2, f)"
    by (cases "temperatureBand v") auto
  obtain r g b where ch: "interpolateChannels c1 c2 f = (r, g, b)"
    by (cases "interpolateChannels c1 c2 f") auto
  from temperatureBand_in_range [OF assms] band ch
  have "channelInRange r" "channelInRange g" "channelInRange b" by simp_all
  with ch have "wellFormedColor (interpolateColor c1 c2 f)"
    by (rule interpolateColor_wellFormed)
  with band show ?thesis by (simp add: getTemperatureColor_def)
qed

lemma getCO2Color_wellFormed:
  assumes "v \<le> 800"
  shows "wellFormedColor (getCO2Color v)"
proof (cases "v < 350")
  case True
  then show ?thesis
    by (simp add: getCO2Color_def green_def wellFormedColor_def hexValue_def)
next
  case False
  then have lo: "350 \<le> v" by simp
  obtain c1 c2 f where band: "co2Band v = (c1, c2, f)"
    by (cases "co2Band v") auto
  obtain r g b where ch: "interpolateChannels c1 c2 f = (r, g, b)"
    by (cases "interpolateChannels c1 c2 f") auto
  from co2Band_in_range [OF lo assms] band ch
  have "channelInRange r" "channelInRange g" "channelInRange b" by simp_all
  with ch have "wellFormedColor (interpolateColor c1 c2 f)"
    by (rule interpolateColor_wellFormed)
  with band False show ?thesis by (simp add: getCO2Color_def)
qed

text \<open>
  C6. The colour mapper should return, for every real input, a colour of the form
  \<open>#rrggbb\<close> whose channels lie between 0 and 255, the factor of each band staying between
  0 and 1. The code pads each channel to two hexadecimal digits but never clamps the
  factor, and outside the gauge scale it returns strings that are no colours. For a
  temperature of \<open>-2\<close> the factor is \<open>-2/25\<close>, the blue channel is 258 and the string has
  three digits for it. For a temperature of 250 the factor is 6 and all three channels are
  negative. For a CO2 value of 900 the factor is 2, the green and blue channels are
  \<open>-12\<close> and the string is \<open>#83-c-c\<close>.
\<close>

theorem colour_factor_not_clamped:
  "co2Band 900 = (midRed, darkRed, 2) \<and>
   interpolateChannels midRed darkRed 2 = (Some 131, Some (- 12), Some (- 12)) \<and>
   getCO2Color 900 = ''#83-c-c'' \<and>
   \<not> wellFormedColor (getCO2Color 900) \<and>
   temperatureBand (- 2) = (blue, green, - 2 / 25) \<and>
   interpolateChannels blue green (- 2 / 25) = (Some 61, Some 125, Some 258) \<and>
   getTemperatureColor (- 2) = ''#3d7d102'' \<and>
   \<not> wellFormedColor (getTemperatureColor (- 2)) \<and>
   temperatureBand 250 = (midRed, darkRed, 6) \<and>
   interpolateChannels midRed darkRed 6 = (Some (- 85), Some (- 172), Some (- 172)) \<and>
   getTemperatureColor 250 = ''#-55-ac-ac'' \<and>
   \<not> wellFormedColor (getTemperatureColor 250)"
  by code_simp

text \<open>
  Where the mapper does meet the requirement: for a temperature between 0 and 100 the
  factor of the band lies between 0 and 1, the red, green and blue channels lie between 0
  and 255, and the result is a well-formed colour. The same holds for the CO2 mapper for
  values between 350 and 800, and its result is well formed for every value up to 800.
\<close>

lemma colour_in_range_on_gauge_scale:
  "(0 \<le> v \<and> v \<le> 100 \<longrightarrow>
      (case temperatureBand v of (c1, c2, f) \<Rightarrow> 0 \<le> f \<and> f \<le> 1 \<and>
         (case interpolateChannels c1 c2 f of (r, g, b) \<Rightarrow>
            channelInRange r \<and> channelInRange g \<and> channelInRange b)) \<and>
      wellFormedColor (getTemperatureColor v)) \<and>
   (350 \<le> w \<and> w \<le> 800 \<longrightarrow>
      (case co2Band w of (c1, c2, f) \<Rightarrow> 0 \<le> f \<and> f \<le> 1 \<and>
         (case interpolateChannels c1 c2 f of (r, g, b) \<Rightarrow>
            channelInRange r \<and> channelInRange g \<and> channelInRange b))) \<and>
   (w \<le> 800 \<longrightarrow> wellFormedColor (getCO2Color w))"
proof (intro conjI impI)
  assume "0 \<le> v \<and> v \<le> 100"
  then show "case temperatureBand v of (c1, c2, f) \<Rightarrow> 0 \<le> f \<and> f \<le> 1 \<and>
         (case interpolateChannels c1 c2 f of (r, g, b) \<Rightarrow>
            channelInRange r \<and> channelInRange g \<and> channelInRange b)"
    using temperatureBand_in_range [of v] by (elim conjE)
next
  assume "0 \<le> v \<and> v \<le> 100"
  then show "wellFormedColor (getTemperatureColor v)"
    using getTemperatureColor_wellFormed [of v] by (elim conjE)
next
  assume "350 \<le> w \<and> w \<le> 800"
  then show "case co2Band w of (c1, c2, f) \<Rightarrow> 0 \<le> f \<and> f \<le> 1 \<and>
         (case interpolateChannels c1 c2 f of (r, g, b) \<Rightarrow>
            channelInRange r \<and> channelInRange g \<and> channelInRange b)"
    using co2Band_in_range [of w] by (elim conjE)
next
  assume "w \<le> 800"
  then show "wellFormedColor (getCO2Color w)"
    by (rule getCO2Color_wellFormed)
qed

section \<open>The analytics window\<close>

text \<open>
  C8, as stated, fails. With the 24-hour filter at clock value 1700000000000, the sample
  stamped exactly 24 hours earlier lies in the closed interval but is left out, and the
  sample stamped a minute after the clock lies outside the interval but is kept.
\<close>

theorem window_differs_from_closed_interval:
  "map timestamp (spec_window 1700000000000 (range_ms H24) (historicalData exWindowState)) =
     [Some 1699913600000, Some 1699999999000] \<and>
   map timestamp (filteredData 1700000000000 H24 (historicalData exWindowState)) =
     [Some 1699999999000, Some 1700000060000] \<and>
   analyticsChart (renderAnalyticsChart (exEnv 1700000000000) exWindowState) =
     Some \<lparr>labels = [Some 1699999999000, Some 1700000060000],
           dataPoints = [Some 310, Some 320]\<rparr>"
  by code_simp

lemma zip_two_maps: "zip (map f xs) (map g xs) = map (\<lambda>x. (f x, g x)) xs"
  by (induction xs) simp_all

lemma newer_than_explicit:
  "newer_than bound = (\<lambda>d. \<exists>t. timestamp d = Some t \<and> bound < t)"
  by (auto simp: newer_than_def fun_eq_iff split: option.splits)

text \<open>
  C8, amended. For a non-empty history and a selected range of 24h or 7d, the chart is
  built from exactly the buffered samples whose timestamp is a valid date strictly later
  than the clock minus the range, with no upper bound at the clock, in buffer order, as
  (timestamp, value) pairs for the chosen metric; the history is not changed. For an empty
  history the function returns at once and the state stays as it is.
\<close>

theorem window_is_strict_and_open_ended:
  "((timeFilter e = H24 \<or> timeFilter e = D7) \<and> historicalData s \<noteq> [] \<longrightarrow>
      historicalData (renderAnalyticsChart e s) = historicalData s \<and>
      (\<exists>c. analyticsChart (renderAnalyticsChart e s) = Some c \<and>
           zip (labels c) (dataPoints c) =
             map (\<lambda>d. (timestamp d, select_key (dataKey e) d))
               (filter (\<lambda>d. \<exists>t. timestamp d = Some t \<and> now e - range_ms (timeFilter e) < t)
                  (historicalData s)))) \<and>
   (historicalData s = [] \<longrightarrow> renderAnalyticsChart e s = s)"
proof (intro conjI impI)
  assume a: "(timeFilter e = H24 \<or> timeFilter e = D7) \<and> historicalData s \<noteq> []"
  show "historicalData (renderAnalyticsChart e s) = historicalData s"
    by (rule renderAnalyticsChart_fields)
  from a have fd: "filteredData (now e) (timeFilter e) (historicalData s) =
      filter (newer_than (now e - range_ms (timeFilter e))) (historicalData s)"
    by (auto simp: filteredData_def range_ms_def)
  let ?c = "\<lparr>labels = map timestamp (filteredData (now e) (timeFilter e) (historicalData s)),
      dataPoints = map (select_key (dataKey e))
        (filteredData (now e) (timeFilter e) (historicalData s))\<rparr>"
  from a have "analyticsChart (renderAnalyticsChart e s) = Some ?c"
    by (simp add: renderAnalyticsChart_def Let_def)
  moreover have "zip (labels ?c) (dataPoints ?c) =
      map (\<lambda>d. (timestamp d, select_key (dataKey e) d))
        (filter (\<lambda>d. \<exists>t. timestamp d = Some t \<and> now e - range_ms (timeFilter e) < t)
           (historicalData s))"
    by (simp add: zip_two_maps fd newer_than_explicit)
  ultimately show "\<exists>c. analyticsChart (renderAnalyticsChart e s) = Some c \<and>
      zip (labels c) (dataPoints c) =
        map (\<lambda>d. (timestamp d, select_key (dataKey e) d))
          (filter (\<lambda>d. \<exists>t. timestamp d = Some t \<and> now e - range_ms (timeFilter e) < t)
             (historicalData s))"
    by blast
next
  assume "historicalData s = []"
  then show "renderAnalyticsChart e s = s"
    by (simp add: renderAnalyticsChart_def)
qed

theorem window_is_strict_and_open_ended_witness:
  "timeFilter (exEnv 1700000000000) = H24 \<and>
   historicalData exWindowState \<noteq> [] \<and>
   historicalData (renderAnalyticsChart (exEnv 1700000000000) exWindowState) =
     historicalData exWindowState \<and>
   (\<exists>c. analyticsChart (renderAnalyticsChart (exEnv 1700000000000) exWindowState) = Some c \<and>
        zip (labels c) (dataPoints c) =
          [(Some 1699999999000, Some 310), (Some 1700000060000, Some 320)]) \<and>
   historicalData init_state = [] \<and>
   renderAnalyticsChart (exEnv 1700000000000) init_state = init_state"
proof -
  have f: "timeFilter (exEnv 1700000000000) = H24"
    by (simp add: exEnv_def)
  have n: "historicalData exWindowState \<noteq> []"
    by (simp add: exWindowState_def)
  have i: "historicalData init_state = []"
    by (simp add: init_state_def)
  have m: "map (\<lambda>d. (timestamp d, select_key (dataKey (exEnv 1700000000000)) d))
      (filter (\<lambda>d. \<exists>t. timestamp d = Some t \<and>
          now (exEnv 1700000000000) - range_ms (timeFilter (exEnv 1700000000000)) < t)
        (historicalData exWindowState)) =
      [(Some 1699999999000, Some 310), (Some 1700000060000, Some 320)]"
    by (simp add: exWindowState_def exEnv_def exSample_def range_ms_def select_key_def)
  show ?thesis
    using window_is_strict_and_open_ended [of "exEnv 1700000000000" exWindowState]
      window_is_strict_and_open_ended [of "exEnv 1700000000000" init_state] f n i m
    by simp
qed


section \<open>The unread counter\<close>

lemma sendAlert_log:
  "activeAlerts (sendAlert e m v u ty s) =
     \<lparr>a_metric = m, a_value = v, a_unit = u, a_type = ty,
      a_location = takeWhile (\<lambda>c. c \<noteq> CHR ''*'') (sensorLocationName e),
      a_timestamp = now e\<rparr> # activeAlerts s"
  "unreadAlertCount (sendAlert e m v u ty s) = unreadAlertCount s + 1"
  by (simp_all add: sendAlert_def Let_def)

lemma check_temp_unread: "unread_bounded s \<Longrightarrow> unread_bounded (check_temp e d s)"
  by (simp add: unread_bounded_def check_temp_def sendAlert_log Let_def)

lemma check_co2_unread: "unread_bounded s \<Longrightarrow> unread_bounded (check_co2 e d s)"
  by (simp add: unread_bounded_def check_co2_def sendAlert_log Let_def)

lemma check_humidity_unread: "unread_bounded s \<Longrightarrow> unread_bounded (check_humidity e d s)"
  by (simp add: unread_bounded_def check_humidity_def sendAlert_log Let_def)

lemma checkThresholds_unread: "unread_bounded s \<Longrightarrow> unread_bounded (checkThresholds e d s)"
  by (simp add: checkThresholds_def check_temp_unread check_co2_unread check_humidity_unread)

lemma step_unread:
  assumes "unread_bounded s"
  shows "unread_bounded (step s ev)"
proof (cases ev)
  case (Tick e r)
  show ?thesis
  proof (cases r)
    case NetworkError
    with Tick assms show ?thesis by (simp add: fetchData_def)
  next
    case (Json body)
    show ?thesis
    proof (cases body)
      case None
      with Tick Json assms show ?thesis by (simp add: fetchData_def)
    next
      case (Some p)
      show ?thesis
      proof (cases "validPayload e p")
        case True
        from checkThresholds_unread [OF assms, of e "sampleOf e p"]
        have "unread_bounded (fetchData e (Json (Some p)) s)"
          by (simp add: unread_bounded_def fetchData_valid_alerts [OF True])
        with Tick Json Some show ?thesis by simp
      next
        case False
        with Tick Json Some assms show ?thesis
          by (simp add: fetchData_invalid)
      qed
    qed
  qed
next
  case BellClick
  with assms show ?thesis by (simp add: alertBellClick_def unread_bounded_def)
next
  case ClearAllClick
  then show ?thesis by (simp add: clearAllAlertsClick_def unread_bounded_def)
next
  case (ChartChange e)
  with assms show ?thesis by (simp add: renderAnalyticsChart_fields unread_bounded_def)
qed

lemma run_unread: "unread_bounded (run init_state evs)"
proof (induction evs rule: rev_induct)
  case Nil
  show ?case by (simp add: run_def init_state_def unread_bounded_def)
next
  case (snoc ev evs)
  then show ?case by (simp add: run_snoc step_unread)
qed

text \<open>
  C10. In every state reached from the initial state by fetch cycles, clicks on the alert
  bell, clicks on the clear button and chart changes, the unread counter lies between 0 and
  the length of the alert log. Sending an alert puts exactly one record at the front of
  the log and increments the counter by one; opening the alert modal sets the counter to
  zero and leaves the log as it is; clearing empties the log and sets the counter to zero.
\<close>

theorem unread_count_bounded_by_log:
  "0 \<le> unreadAlertCount (run init_state evs) \<and>
   unreadAlertCount (run init_state evs) \<le> int (length (activeAlerts (run init_state evs))) \<and>
   tl (activeAlerts (sendAlert e m v u ty s)) = activeAlerts s \<and>
   length (activeAlerts (sendAlert e m v u ty s)) = length (activeAlerts s) + 1 \<and>
   a_metric (hd (activeAlerts (sendAlert e m v u ty s))) = m \<and>
   unreadAlertCount (sendAlert e m v u ty s) = unreadAlertCount s + 1 \<and>
   unreadAlertCount (alertBellClick s) = 0 \<and>
   activeAlerts (alertBellClick s) = activeAlerts s \<and>
   activeAlerts (clearAllAlertsClick s) = [] \<and>
   unreadAlertCount (clearAllAlertsClick s) = 0"
  using run_unread [of evs]
  by (simp add: unread_bounded_def sendAlert_log alertBellClick_def clearAllAlertsClick_def)


theorem unread_count_bounded_by_log_witness:
  "unreadAlertCount (run init_state exAlertEvents) = 1 \<and>
   length (activeAlerts (run init_state exAlertEvents)) = 2 \<and>
   0 \<le> unreadAlertCount (run init_state exAlertEvents) \<and>
   unreadAlertCount (run init_state exAlertEvents) \<le>
     int (length (activeAlerts (run init_state exAlertEvents))) \<and>
   unreadAlertCount (alertBellClick exHotState) = 0 \<and>
   length (activeAlerts (alertBellClick exHotState)) = 1 \<and>
   activeAlerts (clearAllAlertsClick exHotState) = []"
proof -
  have c: "unreadAlertCount (run init_state exAlertEvents) = 1"
    "length (activeAlerts (run init_state exAlertEvents)) = 2"
    "length (activeAlerts exHotState) = 1"
    by code_simp+
  show ?thesis
    using unread_count_bounded_by_log
      [of exAlertEvents "exEnv 0" "''Temperature''" "Some 46" "''C''" Error exHotState] c
    by simp
qed

section \<open>The alert cooldown\<close>

lemma spaced_nth:
  assumes "spaced alerts" "i < j" "j < length alerts" "a_metric (alerts ! i) = a_metric (alerts ! j)"
  shows "ALERT_COOLDOWN < a_timestamp (alerts ! i) - a_timestamp (alerts ! j)"
  using assms
proof (induction alerts arbitrary: i j)
  case Nil
  then show ?case by simp
next
  case (Cons a alerts)
  from Cons.prems(2) obtain j' where j: "j = Suc j'" by (cases j) auto
  with Cons.prems(3) have j'len: "j' < length alerts" by simp
  show ?case
  proof (cases i)
    case 0
    from Cons.prems(1)
    have "\<forall>b\<in>set alerts. a_metric b \<noteq> a_metric a \<or> ALERT_COOLDOWN < a_timestamp a - a_timestamp b"
      by (simp add: list_all_iff)
    moreover have "alerts ! j' \<in> set alerts" using j'len by simp
    ultimately show ?thesis using Cons.prems(4) 0 j by auto
  next
    case (Suc i')
    with Cons.prems j j'len show ?thesis
      using Cons.IH [of i' j'] by simp
  qed
qed

lemma spaced_window:
  assumes "spaced alerts" "a \<in> set alerts"
  shows "length (filter (\<lambda>b. a_metric b = a_metric a \<and>
      \<bar>a_timestamp b - a_timestamp a\<bar> \<le> ALERT_COOLDOWN) alerts) = 1"
  using assms
proof (induction alerts)
  case Nil
  then show ?case by simp
next
  case (Cons x alerts)
  let ?P = "\<lambda>b. a_metric b = a_metric a \<and> \<bar>a_timestamp b - a_timestamp a\<bar> \<le> ALERT_COOLDOWN"
  from Cons.prems(1)
  have far: "\<forall>b\<in>set alerts. a_metric b \<noteq> a_metric x \<or> ALERT_COOLDOWN < a_timestamp x - a_timestamp b"
    and sp: "spaced alerts"
    by (simp_all add: list_all_iff)
  show ?case
  proof (cases "a = x")
    case True
    have "\<forall>b\<in>set alerts. \<not> ?P b"
      using far True by auto
    then have "filter ?P alerts = []"
      by (simp add: filter_empty_conv)
    moreover have "?P x"
      using True by (simp add: ALERT_COOLDOWN_def)
    ultimately show ?thesis by simp
  next
    case False
    with Cons.prems(2) have mem: "a \<in> set alerts" by simp
    with far have "a_metric a \<noteq> a_metric x \<or> ALERT_COOLDOWN < a_timestamp x - a_timestamp a"
      by blast
    then have "\<not> ?P x" by auto
    with Cons.IH [OF sp mem] show ?thesis by simp
  qed
qed

text \<open>
  Firing for one metric, more than the cooldown after the time recorded for it, keeps the
  invariant.
\<close>

lemma fire_keeps_inv:
  assumes inv: "alerts_inv s"
    and m: "m \<in> set metric_names"
    and late: "ALERT_COOLDOWN < now e - last_for m (lastAlertTimes s)"
    and alerts: "activeAlerts s' = a # activeAlerts s"
    and a: "a_metric a = m" "a_timestamp a = now e"
    and last: "last_for m (lastAlertTimes s') = now e"
    and others: "\<forall>m'\<in>set metric_names. m' \<noteq> m \<longrightarrow>
        last_for m' (lastAlertTimes s') = last_for m' (lastAlertTimes s)"
  shows "alerts_inv s'"
proof -
  from inv have sp: "spaced (activeAlerts s)"
    and old: "\<forall>b\<in>set (activeAlerts s). a_metric b \<in> set metric_names \<and>
        a_timestamp b \<le> last_for (a_metric b) (lastAlertTimes s)"
    by (simp_all add: alerts_inv_def list_all_iff)
  have same: "\<forall>b\<in>set (activeAlerts s). a_metric b = m \<longrightarrow> a_timestamp b < now e - ALERT_COOLDOWN"
    using old late by fastforce
  have "spaced (a # activeAlerts s)"
    using sp same a by (auto simp: list_all_iff)
  moreover have "\<forall>b\<in>set (activeAlerts s). a_metric b \<in> set metric_names \<and>
      a_timestamp b \<le> last_for (a_metric b) (lastAlertTimes s')"
  proof
    fix b assume b: "b \<in> set (activeAlerts s)"
    with old have nm: "a_metric b \<in> set metric_names"
      and le: "a_timestamp b \<le> last_for (a_metric b) (lastAlertTimes s)" by auto
    show "a_metric b \<in> set metric_names \<and> a_timestamp b \<le> last_for (a_metric b) (lastAlertTimes s')"
    proof (cases "a_metric b = m")
      case True
      with same b have "a_timestamp b < now e - ALERT_COOLDOWN" by simp
      with True last nm show ?thesis by (simp add: ALERT_COOLDOWN_def)
    next
      case False
      with others nm le show ?thesis by simp
    qed
  qed
  ultimately show ?thesis
    using alerts a m last by (simp add: alerts_inv_def list_all_iff)
qed

lemma check_temp_inv: "alerts_inv s \<Longrightarrow> alerts_inv (check_temp e d s)"
proof (cases "js_gt (temperature d) (th_temp THRESHOLDS) \<and>
    now e - last_temp (lastAlertTimes s) > ALERT_COOLDOWN")
  case True
  assume inv: "alerts_inv s"
  show ?thesis
    by (rule fire_keeps_inv [OF inv, where m = "''Temperature''" and e = e
        and a = "hd (activeAlerts (check_temp e d s))"])
      (use True in \<open>simp_all add: check_temp_def sendAlert_log sendAlert_fields Let_def
        last_for_def metric_names_def\<close>)
next
  case False
  assume "alerts_inv s"
  with False show ?thesis by (auto simp: check_temp_def)
qed

lemma check_co2_inv: "alerts_inv s \<Longrightarrow> alerts_inv (check_co2 e d s)"
proof (cases "js_gt (carbon d) (th_co2 THRESHOLDS) \<and>
    now e - last_co2 (lastAlertTimes s) > ALERT_COOLDOWN")
  case True
  assume inv: "alerts_inv s"
  show ?thesis
    by (rule fire_keeps_inv [OF inv, where m = "''CO2 Level''" and e = e
        and a = "hd (activeAlerts (check_co2 e d s))"])
      (use True in \<open>simp_all add: check_co2_def sendAlert_log sendAlert_fields Let_def
        last_for_def metric_names_def\<close>)
next
  case False
  assume "alerts_inv s"
  with False show ?thesis by (auto simp: check_co2_def)
qed

lemma check_humidity_inv: "alerts_inv s \<Longrightarrow> alerts_inv (check_humidity e d s)"
proof (cases "js_gt (humidity d) (th_humidity THRESHOLDS) \<and>
    now e - last_humidity (lastAlertTimes s) > ALERT_COOLDOWN")
  case True
  assume inv: "alerts_inv s"
  show ?thesis
    by (rule fire_keeps_inv [OF inv, where m = "''Humidity''" and e = e
        and a = "hd (activeAlerts (check_humidity e d s))"])
      (use True in \<open>simp_all add: check_humidity_def sendAlert_log sendAlert_fields Let_def
        last_for_def metric_names_def\<close>)
next
  case False
  assume "alerts_inv s"
  with False show ?thesis by (auto simp: check_humidity_def)
qed

lemma checkThresholds_inv: "alerts_inv s \<Longrightarrow> alerts_inv (checkThresholds e d s)"
  by (simp add: checkThresholds_def check_temp_inv check_co2_inv check_humidity_inv)

lemma step_alerts_inv:
  assumes "alerts_inv s"
  shows "alerts_inv (step s ev)"
proof (cases ev)
  case (Tick e r)
  show ?thesis
  proof (cases r)
    case NetworkError
    with Tick assms show ?thesis by (simp add: fetchData_def)
  next
    case (Json body)
    show ?thesis
    proof (cases body)
      case None
      with Tick Json assms show ?thesis by (simp add: fetchData_def)
    next
      case (Some p)
      show ?thesis
      proof (cases "validPayload e p")
        case True
        from checkThresholds_inv [OF assms, of e "sampleOf e p"]
        have "alerts_inv (fetchData e (Json (Some p)) s)"
          by (simp add: alerts_inv_def fetchData_valid_alerts [OF True])
        with Tick Json Some show ?thesis by simp
      next
        case False
        with Tick Json Some assms show ?thesis
          by (simp add: fetchData_invalid)
      qed
    qed
  qed
next
  case BellClick
  with assms show ?thesis by (simp add: alertBellClick_def alerts_inv_def)
next
  case ClearAllClick
  then show ?thesis by (simp add: clearAllAlertsClick_def alerts_inv_def)
next
  case (ChartChange e)
  with assms show ?thesis by (simp add: renderAnalyticsChart_fields alerts_inv_def)
qed

lemma run_alerts_inv: "alerts_inv (run init_state evs)"
proof (induction evs rule: rev_induct)
  case Nil
  show ?case by (simp add: run_def init_state_def alerts_inv_def)
next
  case (snoc ev evs)
  then show ?case by (simp add: run_snoc step_alerts_inv)
qed

text \<open>What each of the three tests does to the alerts and the cooldown time of a metric.\<close>

lemma check_temp_metric:
  "alerts_of m (activeAlerts (check_temp e d s)) =
     (if m = ''Temperature'' \<and> js_gt (temperature d) 45 \<and>
         ALERT_COOLDOWN < now e - last_for ''Temperature'' (lastAlertTimes s)
      then [hd (activeAlerts (check_temp e d s))] else []) @ alerts_of m (activeAlerts s)"
  "last_for m (lastAlertTimes (check_temp e d s)) =
     (if m = ''Temperature'' \<and> js_gt (temperature d) 45 \<and>
         ALERT_COOLDOWN < now e - last_for ''Temperature'' (lastAlertTimes s)
      then now e else last_for m (lastAlertTimes s))"
  "js_gt (temperature d) 45 \<and> ALERT_COOLDOWN < now e - last_for ''Temperature'' (lastAlertTimes s)
     \<Longrightarrow> a_timestamp (hd (activeAlerts (check_temp e d s))) = now e"
  by (simp_all add: check_temp_def alerts_of_def last_for_def sendAlert_log sendAlert_fields
      THRESHOLDS_def Let_def)

lemma check_co2_metric:
  "alerts_of m (activeAlerts (check_co2 e d s)) =
     (if m = ''CO2 Level'' \<and> js_gt (carbon d) 500 \<and>
         ALERT_COOLDOWN < now e - last_for ''CO2 Level'' (lastAlertTimes s)
      then [hd (activeAlerts (check_co2 e d s))] else []) @ alerts_of m (activeAlerts s)"
  "last_for m (lastAlertTimes (check_co2 e d s)) =
     (if m = ''CO2 Level'' \<and> js_gt (carbon d) 500 \<and>
         ALERT_COOLDOWN < now e - last_for ''CO2 Level'' (lastAlertTimes s)
      then now e else last_for m (lastAlertTimes s))"
  "js_gt (carbon d) 500 \<and> ALERT_COOLDOWN < now e - last_for ''CO2 Level'' (lastAlertTimes s)
     \<Longrightarrow> a_timestamp (hd (activeAlerts (check_co2 e d s))) = now e"
  by (simp_all add: check_co2_def alerts_of_def last_for_def sendAlert_log sendAlert_fields
      THRESHOLDS_def Let_def)

lemma check_humidity_metric:
  "alerts_of m (activeAlerts (check_humidity e d s)) =
     (if m = ''Humidity'' \<and> js_gt (humidity d) 80 \<and>
         ALERT_COOLDOWN < now e - last_for ''Humidity'' (lastAlertTimes s)
      then [hd (activeAlerts (check_humidity e d s))] else []) @ alerts_of m (activeAlerts s)"
  "m \<in> set metric_names \<Longrightarrow> last_for m (lastAlertTimes (check_humidity e d s)) =
     (if m = ''Humidity'' \<and> js_gt (humidity d) 80 \<and>
         ALERT_COOLDOWN < now e - last_for ''Humidity'' (lastAlertTimes s)
      then now e else last_for m (lastAlertTimes s))"
  "js_gt (humidity d) 80 \<and> ALERT_COOLDOWN < now e - last_for ''Humidity'' (lastAlertTimes s)
     \<Longrightarrow> a_timestamp (hd (activeAlerts (check_humidity e d s))) = now e"
  by (auto simp: check_humidity_def alerts_of_def last_for_def sendAlert_log sendAlert_fields
      THRESHOLDS_def Let_def metric_names_def)

lemma checkThresholds_fires:
  assumes "m \<in> set metric_names" "breach m d"
    "ALERT_COOLDOWN < now e - last_for m (lastAlertTimes s)"
  shows "\<exists>a. alerts_of m (activeAlerts (checkThresholds e d s)) = a # alerts_of m (activeAlerts s) \<and>
           a_timestamp a = now e"
    and "last_for m (lastAlertTimes (checkThresholds e d s)) = now e"
proof -
  from assms(1) consider "m = ''Temperature''" | "m = ''CO2 Level''" | "m = ''Humidity''"
    by (auto simp: metric_names_def)
  then have "(\<exists>a. alerts_of m (activeAlerts (checkThresholds e d s)) = a # alerts_of m (activeAlerts s) \<and>
           a_timestamp a = now e) \<and> last_for m (lastAlertTimes (checkThresholds e d s)) = now e"
  proof cases
    case 1
    with assms(2,3) show ?thesis
      by (simp add: checkThresholds_def breach_def check_temp_metric check_co2_metric
          check_humidity_metric metric_names_def)
  next
    case 2
    with assms(2,3) show ?thesis
      by (simp add: checkThresholds_def breach_def check_temp_metric check_co2_metric
          check_humidity_metric metric_names_def)
  next
    case 3
    with assms(2,3) show ?thesis
      by (simp add: checkThresholds_def breach_def check_temp_metric check_co2_metric
          check_humidity_metric metric_names_def)
  qed
  then show "\<exists>a. alerts_of m (activeAlerts (checkThresholds e d s)) = a # alerts_of m (activeAlerts s) \<and>
           a_timestamp a = now e"
    and "last_for m (lastAlertTimes (checkThresholds e d s)) = now e"
    by simp_all
qed

lemma checkThresholds_suppressed:
  assumes "m \<in> set metric_names"
    "\<not> (breach m d \<and> ALERT_COOLDOWN < now e - last_for m (lastAlertTimes s))"
  shows "alerts_of m (activeAlerts (checkThresholds e d s)) = alerts_of m (activeAlerts s) \<and>
         last_for m (lastAlertTimes (checkThresholds e d s)) = last_for m (lastAlertTimes s)"
proof -
  from assms(1) consider "m = ''Temperature''" | "m = ''CO2 Level''" | "m = ''Humidity''"
    by (auto simp: metric_names_def)
  then show ?thesis
  proof cases
    case 1
    with assms(2) show ?thesis
      by (simp add: checkThresholds_def breach_def check_temp_metric check_co2_metric
          check_humidity_metric metric_names_def)
  next
    case 2
    with assms(2) show ?thesis
      by (simp add: checkThresholds_def breach_def check_temp_metric check_co2_metric
          check_humidity_metric metric_names_def)
  next
    case 3
    with assms(2) show ?thesis
      by (simp add: checkThresholds_def breach_def check_temp_metric check_co2_metric
          check_humidity_metric metric_names_def)
  qed
qed

text \<open>
  C2. In the alert log of every state reached from the initial state, two alerts for the
  same metric are more than 300000 ms apart (the newer one is listed first), so the window
  of 300000 ms on either side of an alert holds exactly one alert of its metric, that alert
  itself. The cooldown is measured from the last fired time: in a cycle whose sample
  breaches the threshold of a metric, exactly one alert of that metric is fired, stamped
  with the clock, and the time recorded for the metric becomes the clock, when more than
  300000 ms have passed since the time recorded for the metric; otherwise no alert of that
  metric is fired and the recorded time stays as it is, so that the breaches during the
  cooldown do not extend it.
\<close>

theorem alert_cooldown_spacing:
  "(\<forall>i j. i < j \<and> j < length (activeAlerts (run init_state evs)) \<and>
       a_metric (activeAlerts (run init_state evs) ! i) =
         a_metric (activeAlerts (run init_state evs) ! j) \<longrightarrow>
       300000 < a_timestamp (activeAlerts (run init_state evs) ! i) -
                a_timestamp (activeAlerts (run init_state evs) ! j)) \<and>
   (\<forall>a\<in>set (activeAlerts (run init_state evs)).
       length (filter (\<lambda>b. a_metric b = a_metric a \<and> \<bar>a_timestamp b - a_timestamp a\<bar> \<le> 300000)
         (activeAlerts (run init_state evs))) = 1) \<and>
   (validPayload e p \<and> m \<in> set metric_names \<and> breach m (sampleOf e p) \<longrightarrow>
      (300000 < now e - last_for m (lastAlertTimes s) \<longrightarrow>
         (\<exists>a. alerts_of m (activeAlerts (fetchData e (Json (Some p)) s)) =
                 a # alerts_of m (activeAlerts s) \<and> a_timestamp a = now e) \<and>
         last_for m (lastAlertTimes (fetchData e (Json (Some p)) s)) = now e) \<and>
      (\<not> 300000 < now e - last_for m (lastAlertTimes s) \<longrightarrow>
         alerts_of m (activeAlerts (fetchData e (Json (Some p)) s)) = alerts_of m (activeAlerts s) \<and>
         last_for m (lastAlertTimes (fetchData e (Json (Some p)) s)) =
           last_for m (lastAlertTimes s)))"
proof (intro conjI)
  have sp: "spaced (activeAlerts (run init_state evs))"
    using run_alerts_inv [of evs] by (simp add: alerts_inv_def)
  show "\<forall>i j. i < j \<and> j < length (activeAlerts (run init_state evs)) \<and>
       a_metric (activeAlerts (run init_state evs) ! i) =
         a_metric (activeAlerts (run init_state evs) ! j) \<longrightarrow>
       300000 < a_timestamp (activeAlerts (run init_state evs) ! i) -
                a_timestamp (activeAlerts (run init_state evs) ! j)"
    using spaced_nth [OF sp] by (simp add: ALERT_COOLDOWN_def)
  show "\<forall>a\<in>set (activeAlerts (run init_state evs)).
       length (filter (\<lambda>b. a_metric b = a_metric a \<and> \<bar>a_timestamp b - a_timestamp a\<bar> \<le> 300000)
         (activeAlerts (run init_state evs))) = 1"
    using spaced_window [OF sp] by (simp add: ALERT_COOLDOWN_def)
  show "validPayload e p \<and> m \<in> set metric_names \<and> breach m (sampleOf e p) \<longrightarrow>
      (300000 < now e - last_for m (lastAlertTimes s) \<longrightarrow>
         (\<exists>a. alerts_of m (activeAlerts (fetchData e (Json (Some p)) s)) =
                 a # alerts_of m (activeAlerts s) \<and> a_timestamp a = now e) \<and>
         last_for m (lastAlertTimes (fetchData e (Json (Some p)) s)) = now e) \<and>
      (\<not> 300000 < now e - last_for m (lastAlertTimes s) \<longrightarrow>
         alerts_of m (activeAlerts (fetchData e (Json (Some p)) s)) = alerts_of m (activeAlerts s) \<and>
         last_for m (lastAlertTimes (fetchData e (Json (Some p)) s)) =
           last_for m (lastAlertTimes s))"
  proof (intro impI conjI; elim conjE)
    assume v: "validPayload e p" and m: "m \<in> set metric_names" and b: "breach m (sampleOf e p)"
    {
      assume late: "300000 < now e - last_for m (lastAlertTimes s)"
      then have l: "ALERT_COOLDOWN < now e - last_for m (lastAlertTimes s)"
        by (simp add: ALERT_COOLDOWN_def)
      show "\<exists>a. alerts_of m (activeAlerts (fetchData e (Json (Some p)) s)) =
                 a # alerts_of m (activeAlerts s) \<and> a_timestamp a = now e"
        using checkThresholds_fires(1) [OF m b l] by (simp add: fetchData_valid_alerts [OF v])
      show "last_for m (lastAlertTimes (fetchData e (Json (Some p)) s)) = now e"
        using checkThresholds_fires(2) [OF m b l] by (simp add: fetchData_valid_alerts [OF v])
    }
    {
      assume "\<not> 300000 < now e - last_for m (lastAlertTimes s)"
      then have n: "\<not> (breach m (sampleOf e p) \<and>
          ALERT_COOLDOWN < now e - last_for m (lastAlertTimes s))"
        by (simp add: ALERT_COOLDOWN_def)
      show "alerts_of m (activeAlerts (fetchData e (Json (Some p)) s)) = alerts_of m (activeAlerts s)"
        using checkThresholds_suppressed [OF m n] by (simp add: fetchData_valid_alerts [OF v])
      show "last_for m (lastAlertTimes (fetchData e (Json (Some p)) s)) =
           last_for m (lastAlertTimes s)"
        using checkThresholds_suppressed [OF m n] by (simp add: fetchData_valid_alerts [OF v])
    }
  qed
qed

theorem alert_cooldown_spacing_witness:
  "map a_timestamp (activeAlerts (run init_state (map tick exBreachTicks))) =
     [1700000305000, 1700000000000] \<and>
   map a_metric (activeAlerts (run init_state (map tick exBreachTicks))) =
     [''Temperature'', ''Temperature''] \<and>
   300000 < a_timestamp (activeAlerts (run init_state (map tick exBreachTicks)) ! 0) -
            a_timestamp (activeAlerts (run init_state (map tick exBreachTicks)) ! 1) \<and>
   length (filter (\<lambda>b. a_metric b = ''Temperature'' \<and> \<bar>a_timestamp b - 1700000305000\<bar> \<le> 300000)
     (activeAlerts (run init_state (map tick exBreachTicks)))) = 1 \<and>
   validPayload (exEnv 1700000305000) exHotPayload \<and>
   ''Temperature'' \<in> set metric_names \<and>
   breach ''Temperature'' (sampleOf (exEnv 1700000305000) exHotPayload) \<and>
   last_for ''Temperature'' (lastAlertTimes exHotState) = 1700000000000 \<and>
   last_for ''Temperature''
     (lastAlertTimes (fetchData (exEnv 1700000305000) (Json (Some exHotPayload)) exHotState)) =
     1700000305000 \<and>
   last_for ''Temperature''
     (lastAlertTimes (fetchData (exEnv 1700000300000) (Json (Some exHotPayload)) exHotState)) =
     1700000000000 \<and>
   alerts_of ''Temperature''
     (activeAlerts (fetchData (exEnv 1700000300000) (Json (Some exHotPayload)) exHotState)) =
     alerts_of ''Temperature'' (activeAlerts exHotState)"
proof -
  define L where "L = activeAlerts (run init_state (map tick exBreachTicks))"
  have v: "validPayload (exEnv t) exHotPayload" for t
    unfolding exHotPayload_def by (rule exPayload_valid)
  have n: "''Temperature'' \<in> set metric_names"
    by (simp add: metric_names_def)
  have b: "breach ''Temperature'' (sampleOf (exEnv t) exHotPayload)" for t
    by (simp add: breach_def exHotPayload_def exPayload_sample js_gt_def)
  have t: "now (exEnv t) = t" for t
    by (simp add: exEnv_def)
  have l: "last_for ''Temperature'' (lastAlertTimes exHotState) = 1700000000000"
    by code_simp
  have lg: "map a_timestamp L = [1700000305000, 1700000000000]"
    "map a_metric L = [''Temperature'', ''Temperature'']"
    unfolding L_def by code_simp+
  from lg(1) have len: "length L = 2"
    by (metis length_map length_Cons list.size(3) numeral_2_eq_2)
  have t0: "a_timestamp (L ! 0) = 1700000305000" and m0: "a_metric (L ! 0) = ''Temperature''"
    using nth_map [of 0 L a_timestamp] nth_map [of 0 L a_metric] lg len by simp_all
  have t1: "a_timestamp (L ! 1) = 1700000000000" and m1: "a_metric (L ! 1) = ''Temperature''"
    using nth_map [of 1 L a_timestamp] nth_map [of 1 L a_metric] lg len by simp_all
  note fire = alert_cooldown_spacing
    [of "map tick exBreachTicks" "exEnv 1700000305000" exHotPayload "''Temperature''" exHotState]
  note hold = alert_cooldown_spacing
    [of "map tick exBreachTicks" "exEnv 1700000300000" exHotPayload "''Temperature''" exHotState]
  from fire have "\<forall>i j. i < j \<and> j < length L \<and> a_metric (L ! i) = a_metric (L ! j) \<longrightarrow>
      300000 < a_timestamp (L ! i) - a_timestamp (L ! j)"
    unfolding L_def by (rule conjunct1)
  then have "0 < (1::nat) \<and> 1 < length L \<and> a_metric (L ! 0) = a_metric (L ! 1) \<longrightarrow>
      300000 < a_timestamp (L ! 0) - a_timestamp (L ! 1)"
    by (elim allE)
  then have apart: "300000 < a_timestamp (L ! 0) - a_timestamp (L ! 1)"
    using len m0 m1 by simp
  from fire have "\<forall>a\<in>set L. length (filter (\<lambda>b. a_metric b = a_metric a \<and>
      \<bar>a_timestamp b - a_timestamp a\<bar> \<le> 300000) L) = 1"
    unfolding L_def by (rule conjunct1 [OF conjunct2])
  moreover have "L ! 0 \<in> set L"
    using len by simp
  ultimately have "length (filter (\<lambda>b. a_metric b = a_metric (L ! 0) \<and>
      \<bar>a_timestamp b - a_timestamp (L ! 0)\<bar> \<le> 300000) L) = 1"
    by (rule bspec)
  then have one: "length (filter (\<lambda>b. a_metric b = ''Temperature'' \<and>
      \<bar>a_timestamp b - 1700000305000\<bar> \<le> 300000) L) = 1"
    by (simp only: t0 m0)
  from fire v n b t l
  have fired: "last_for ''Temperature''
      (lastAlertTimes (fetchData (exEnv 1700000305000) (Json (Some exHotPayload)) exHotState)) =
      1700000305000"
    by simp
  from hold v n b t l
  have held: "last_for ''Temperature''
      (lastAlertTimes (fetchData (exEnv 1700000300000) (Json (Some exHotPayload)) exHotState)) =
      1700000000000 \<and>
    alerts_of ''Temperature''
      (activeAlerts (fetchData (exEnv 1700000300000) (Json (Some exHotPayload)) exHotState)) =
      alerts_of ''Temperature'' (activeAlerts exHotState)"
    by simp
  from lg apart one v n b l fired held show ?thesis
    unfolding L_def by blast
qed


end
